theory Spec2Isabelle
  imports Main
begin

section \<open>The VFS core of src/kernel/vfs.c\<close>

text \<open>
  The embedding follows vfs.c function by function. Pointers into the static dentry
  array are slot indices; pointers to heap objects (superblocks, vnodes, filesystem
  types) are addresses. A C function that returns a status or a pointer and mutates the
  global tables becomes a function from the state to either a fault (the machine
  dereferences or calls a null or stray pointer) or the returned value with the new
  state. The headers vfs.h, list.h, mem.h, string.h and errors.h are not part of the
  sources at hand; what is taken from them is marked where it is introduced.
\<close>

subsection \<open>Data model\<close>

type_synonym addr = nat
type_synonym dev_t = nat

text \<open>The error numbers vfs.c sets; \<open>E_BACKEND\<close> stands for whatever a backend
  callback leaves in errno.\<close>

datatype errno =
  E_NOMEM | E_EXIST | E_IO | E_LIMIT | E_CORRUPT | E_NODIR | E_NOENT | E_NOROOT
  | E_ACCESS | E_NOTIMP | E_NOKOBJ | E_MOUNTED | E_INVFS | E_NOTMOUNTED | E_BUSY
  | E_BACKEND nat

datatype fault = NullDeref | NullCall | BadPointer

text \<open>Modelled from the spec: vfs.h with the \<open>FILE_TYPE\<close> macro is missing; the
  spec only says that a vnode's mode carries its type and that path resolution asks
  whether that type is "directory". A mode is a type tag with the remaining bits.\<close>

datatype file_type = FILE_TYPE_DIRECTORY | FILE_TYPE_REGULAR | FILE_TYPE_OTHER nat

type_synonym file_mode = "file_type \<times> nat"

definition FILE_TYPE :: "file_mode \<Rightarrow> file_type" where
  "FILE_TYPE m = fst m"

text \<open>Modelled from the spec: the superblock flag of vfs.h is "a mutable flag
  (unused | mounted)", tested by \<open>VFS_SB_IS_MOUNTED\<close>.\<close>

datatype sb_flag = VFS_SB_F_UNUSED | VFS_SB_F_MOUNTED

text \<open>A dentry. The fields of the C sub-struct \<open>ro\<close> are \<open>d_parent\<close>, \<open>d_sb\<close>,
  \<open>d_mnt_sb\<close> and \<open>d_count\<close>. A null \<open>d_name\<close> marks a free slot.\<close>

record vfs_dentry =
  d_name :: "string option"
  d_vno :: int
  d_parent :: "nat option"
  d_sb :: "addr option"
  d_mnt_sb :: "addr option"
  d_count :: int

text \<open>A vnode. Of the operation tables only \<open>v_iops.lookup\<close> is ever called by vfs.c:
  given the name held by the new dentry it either fails, leaving an error number, or
  yields the vnode number it stores in the dentry.\<close>

record vfs_vnode =
  v_no :: int
  v_mode :: file_mode
  v_size :: nat
  v_dev :: "dev_t option"
  v_lookup :: "(string \<Rightarrow> errno + int) option"
  v_sb :: "addr option"
  v_count :: int

text \<open>What a backend's \<open>read_vnode\<close> writes into the vnode it is handed.\<close>

record vnode_fill =
  vf_mode :: file_mode
  vf_size :: nat
  vf_dev :: "dev_t option"
  vf_lookup :: "(string \<Rightarrow> errno + int) option"

text \<open>The superblock operations. A callback is a function of what identifies the
  object it is handed (the vnode number, the device id); \<open>True\<close> is the C return value
  0 and \<open>False\<close> is -1. A null function pointer is \<open>None\<close>.\<close>

record vfs_sb_ops =
  read_vnode :: "(int \<Rightarrow> vnode_fill option) option"
  write_vnode :: "(int \<Rightarrow> bool) option"
  delete_vnode :: "(int \<Rightarrow> bool) option"
  destroy_vnode :: "(int \<Rightarrow> bool) option"
  mount :: "(dev_t \<Rightarrow> bool) option"
  unmount :: "(dev_t \<Rightarrow> bool) option"

text \<open>A superblock; \<open>sb_devid\<close>, \<open>sb_fs_type\<close> and \<open>sb_mnt\<close> are its \<open>ro\<close> fields.\<close>

record vfs_sb =
  sb_blocksize :: nat
  sb_blocks :: nat
  sb_max_bytes :: nat
  sb_flags :: sb_flag
  sb_ops :: vfs_sb_ops
  sb_root_vno :: int
  sb_devid :: dev_t
  sb_fs_type :: "addr option"
  sb_mnt :: "nat option"

text \<open>What a filesystem type's probe \<open>ft_get_sb\<close> writes into the superblock.\<close>

record sb_fill =
  sf_blocksize :: nat
  sf_blocks :: nat
  sf_max_bytes :: nat
  sf_flags :: sb_flag
  sf_ops :: vfs_sb_ops
  sf_root_vno :: int

record vfs_fs_type =
  ft_name :: string
  ft_get_sb :: "(dev_t \<Rightarrow> sb_fill option) option"
  ft_kill_sb :: "(dev_t \<Rightarrow> bool) option"

text \<open>The calls made to backend callbacks, in order.\<close>

datatype event =
  Ev_get_sb addr | Ev_kill_sb addr | Ev_mount addr | Ev_unmount addr
  | Ev_read_vnode addr int | Ev_destroy_vnode addr int | Ev_lookup addr string

text \<open>The global state of vfs.c: its static variables, errno, the allocator and the
  log of backend calls. The three lists hold the pointers list.h keeps together with
  the objects they point to, in insertion order. \<open>alloc_ok\<close> lists the outcomes of
  the coming allocation requests (\<open>kalloc\<close> and \<open>list_add\<close>); once it is used up every
  request succeeds. \<open>heap_junk\<close> is what a function pointer of a fresh block holds
  before anything is assigned to it.\<close>

record vfs =
  vfs_root_dentry :: "nat option"
  vfs_fs_types :: "(addr \<times> vfs_fs_type) list"
  vfs_sbs :: "(addr \<times> vfs_sb) list"
  vfs_dentries :: "vfs_dentry list"
  vfs_vnodes :: "(addr \<times> vfs_vnode) list"
  vfs_errno :: "errno option"
  heap_next :: addr
  alloc_ok :: "bool list"
  heap_junk :: "(int \<Rightarrow> bool) option"
  backend_calls :: "event list"

type_synonym 'a result = "fault + ('a \<times> vfs)"

definition VFS_MAX_DENTRIES :: nat where
  "VFS_MAX_DENTRIES = 100"

definition VFS_DEFAULT_BLK_SIZE :: nat where
  "VFS_DEFAULT_BLK_SIZE = 1024"

text \<open>The counters are C \<open>int\<close>s of 32 bits; \<open>++\<close> and \<open>--\<close> wrap around.\<close>

definition INT_MAX :: int where
  "INT_MAX = 2147483647"

definition int_incr :: "int \<Rightarrow> int" where
  "int_incr c = (if c = INT_MAX then - INT_MAX - 1 else c + 1)"

definition int_decr :: "int \<Rightarrow> int" where
  "int_decr c = (if c = - INT_MAX - 1 then INT_MAX else c - 1)"

definition set_errno :: "errno \<Rightarrow> vfs \<Rightarrow> vfs" where
  "set_errno e s = s\<lparr>vfs_errno := Some e\<rparr>"

definition log_call :: "event \<Rightarrow> vfs \<Rightarrow> vfs" where
  "log_call ev s = s\<lparr>backend_calls := backend_calls s @ [ev]\<rparr>"

subsection \<open>Allocation and lists\<close>

text \<open>Modelled from the spec: mem.h is missing. An allocation either fails ("fails with
  OutOfMemory on allocation failure") or returns a block at an address never handed out
  before.\<close>

definition kalloc :: "vfs \<Rightarrow> addr option \<times> vfs" where
  "kalloc s =
     (case alloc_ok s of
        [] \<Rightarrow> (Some (heap_next s), s\<lparr>heap_next := Suc (heap_next s)\<rparr>)
      | b # bs \<Rightarrow>
          if b then (Some (heap_next s), s\<lparr>heap_next := Suc (heap_next s), alloc_ok := bs\<rparr>)
          else (None, s\<lparr>alloc_ok := bs\<rparr>))"

text \<open>Modelled from the spec: list.h is missing. \<open>list_add\<close> may fail for lack of memory
  and otherwise inserts the item at the end; \<open>list_find\<close> returns the first item the
  comparison accepts; \<open>list_find_del\<close> also takes that item off the list.\<close>

definition list_add_ok :: "vfs \<Rightarrow> bool \<times> vfs" where
  "list_add_ok s =
     (case alloc_ok s of
        [] \<Rightarrow> (True, s)
      | b # bs \<Rightarrow> (b, s\<lparr>alloc_ok := bs\<rparr>))"

fun list_find :: "('a \<Rightarrow> bool) \<Rightarrow> 'a list \<Rightarrow> 'a option" where
  "list_find cmp [] = None"
| "list_find cmp (x # xs) = (if cmp x then Some x else list_find cmp xs)"

fun list_del :: "('a \<Rightarrow> bool) \<Rightarrow> 'a list \<Rightarrow> 'a list" where
  "list_del cmp [] = []"
| "list_del cmp (x # xs) = (if cmp x then xs else x # list_del cmp xs)"

subsection \<open>Dentries\<close>

text \<open>\<open>memset(dentry, 0, sizeof(vfs_dentry_t))\<close>.\<close>

definition dentry_zero :: vfs_dentry where
  "dentry_zero =
     \<lparr>d_name = None, d_vno = 0, d_parent = None, d_sb = None, d_mnt_sb = None, d_count = 0\<rparr>"

definition vfs_dentry_reset :: "nat \<Rightarrow> vfs \<Rightarrow> vfs" where
  "vfs_dentry_reset i s = s\<lparr>vfs_dentries := (vfs_dentries s)[i := dentry_zero]\<rparr>"

text \<open>The scanning loop of \<open>vfs_dentry_get\<close> from slot \<open>i\<close> on. \<open>lowest\<close> holds
  \<open>lowest_index\<close> and \<open>lowest_count\<close> together: \<open>None\<close> is \<open>lowest_index == -1\<close>, the
  only case in which the C code does not read \<open>lowest_count\<close>. The result is the slot
  of the wanted dentry or, when the loop runs to its end, the final \<open>lowest\<close>.\<close>

datatype scan = Found nat | NotFound "(nat \<times> int) option"

function dentry_scan ::
  "vfs_dentry list \<Rightarrow> nat option \<Rightarrow> string \<Rightarrow> nat \<Rightarrow> (nat \<times> int) option \<Rightarrow> scan" where
  "dentry_scan ds parent name i lowest =
     (if i < VFS_MAX_DENTRIES then
        (if d_name (ds ! i) = None then
           dentry_scan ds parent name (i + 1) (Some (i, 0))
         else if d_parent (ds ! i) = parent \<and> d_name (ds ! i) = Some name then
           Found i
         else if d_mnt_sb (ds ! i) \<noteq> None then
           dentry_scan ds parent name (i + 1) lowest
         else if (case lowest of None \<Rightarrow> True | Some (li, lc) \<Rightarrow> d_count (ds ! i) < lc) then
           dentry_scan ds parent name (i + 1) (Some (i, d_count (ds ! i)))
         else
           dentry_scan ds parent name (i + 1) lowest)
      else NotFound lowest)"
  by pat_completeness auto
termination
  by (relation "measure (\<lambda>(ds, parent, name, i, lowest). VFS_MAX_DENTRIES - i)") auto

text \<open>The superblock a new dentry in slot \<open>i\<close> belongs to, read off its parent.\<close>

definition dentry_inherit_sb :: "vfs_dentry list \<Rightarrow> nat option \<Rightarrow> addr option" where
  "dentry_inherit_sb ds parent =
     (case parent of
        None \<Rightarrow> None
      | Some p \<Rightarrow>
          (if d_mnt_sb (ds ! p) = None then d_sb (ds ! p) else d_mnt_sb (ds ! p)))"

text \<open>The assignments that fill the chosen slot \<open>li\<close> after its reset: name and
  parent, then the owning superblock read through the parent pointer, then the counter.\<close>

definition dentry_link :: "nat \<Rightarrow> nat option \<Rightarrow> string \<Rightarrow> vfs_dentry list \<Rightarrow> vfs_dentry list" where
  "dentry_link li parent name ds =
     (let ds1 = ds[li := (ds ! li)\<lparr>d_name := Some name, d_parent := parent\<rparr>];
          ds2 = ds1[li := (ds1 ! li)\<lparr>d_sb := dentry_inherit_sb ds1 parent\<rparr>]
      in ds2[li := (ds2 ! li)\<lparr>d_count := 1\<rparr>])"

text \<open>A parent pointer is a slot of the array; one beyond it is a stray pointer.\<close>

definition dentry_ptr_ok :: "nat option \<Rightarrow> bool" where
  "dentry_ptr_ok parent = (case parent of None \<Rightarrow> True | Some p \<Rightarrow> p < VFS_MAX_DENTRIES)"

definition vfs_dentry_get :: "nat option \<Rightarrow> string \<Rightarrow> vfs \<Rightarrow> (nat option) result" where
  "vfs_dentry_get parent name s =
     (case dentry_scan (vfs_dentries s) parent name 0 None of
        Found i \<Rightarrow>
          Inr (Some i,
               s\<lparr>vfs_dentries := (vfs_dentries s)
                    [i := (vfs_dentries s ! i)\<lparr>d_count := int_incr (d_count (vfs_dentries s ! i))\<rparr>]\<rparr>)
      | NotFound None \<Rightarrow> Inr (None, set_errno E_LIMIT s)
      | NotFound (Some (li, lc)) \<Rightarrow>
          (case kalloc (vfs_dentry_reset li s) of
             (None, s2) \<Rightarrow> Inr (None, set_errno E_NOMEM s2)
           | (Some a, s2) \<Rightarrow>
               if dentry_ptr_ok parent
               then Inr (Some li, s2\<lparr>vfs_dentries := dentry_link li parent name (vfs_dentries s2)\<rparr>)
               else Inl BadPointer))"

text \<open>The two loops of \<open>vfs_dentry_unmount_sb\<close>: the check for a mount point that
  belongs to \<open>sb\<close>, then the reset of every dentry that belongs to it.\<close>

function dentry_unmount_check :: "vfs_dentry list \<Rightarrow> addr \<Rightarrow> nat \<Rightarrow> bool" where
  "dentry_unmount_check ds sb i =
     (if i < VFS_MAX_DENTRIES then
        (if d_name (ds ! i) = None then dentry_unmount_check ds sb (i + 1)
         else if d_mnt_sb (ds ! i) \<noteq> None \<and> d_sb (ds ! i) = Some sb then False
         else dentry_unmount_check ds sb (i + 1))
      else True)"
  by pat_completeness auto
termination
  by (relation "measure (\<lambda>(ds, sb, i). VFS_MAX_DENTRIES - i)") auto

function dentry_unmount_reset :: "vfs_dentry list \<Rightarrow> addr \<Rightarrow> nat \<Rightarrow> vfs_dentry list" where
  "dentry_unmount_reset ds sb i =
     (if i < VFS_MAX_DENTRIES then
        (if d_name (ds ! i) = None then dentry_unmount_reset ds sb (i + 1)
         else if d_sb (ds ! i) = Some sb then dentry_unmount_reset (ds[i := dentry_zero]) sb (i + 1)
         else dentry_unmount_reset ds sb (i + 1))
      else ds)"
  by pat_completeness auto
termination
  by (relation "measure (\<lambda>(ds, sb, i). VFS_MAX_DENTRIES - i)") auto

definition vfs_dentry_unmount_sb :: "addr \<Rightarrow> vfs \<Rightarrow> int \<times> vfs" where
  "vfs_dentry_unmount_sb sb s =
     (if dentry_unmount_check (vfs_dentries s) sb 0
      then (0, s\<lparr>vfs_dentries := dentry_unmount_reset (vfs_dentries s) sb 0\<rparr>)
      else (- 1, s))"

subsection \<open>Filesystem types and superblocks\<close>

definition vfs_fs_type_lookup :: "string \<Rightarrow> vfs \<Rightarrow> (addr \<times> vfs_fs_type) option" where
  "vfs_fs_type_lookup name s = list_find (\<lambda>(a, ft). ft_name ft = name) (vfs_fs_types s)"

definition vfs_sb_lookup :: "dev_t \<Rightarrow> vfs \<Rightarrow> (addr \<times> vfs_sb) option" where
  "vfs_sb_lookup devid s = list_find (\<lambda>(a, sb). sb_devid sb = devid) (vfs_sbs s)"

text \<open>The default values of \<open>vfs_sb_alloc\<close>. The C code assigns \<open>delete_vnode\<close> twice
  and \<open>destroy_vnode\<close> never: that field keeps what the fresh block held.\<close>

definition sb_default :: "dev_t \<Rightarrow> (int \<Rightarrow> bool) option \<Rightarrow> vfs_sb" where
  "sb_default devid junk =
     \<lparr>sb_blocksize = VFS_DEFAULT_BLK_SIZE, sb_blocks = 0, sb_max_bytes = 0,
      sb_flags = VFS_SB_F_UNUSED,
      sb_ops = \<lparr>read_vnode = None, write_vnode = None, delete_vnode = None,
                destroy_vnode = junk, mount = None, unmount = None\<rparr>,
      sb_root_vno = 0, sb_devid = devid, sb_fs_type = None, sb_mnt = None\<rparr>"

definition vfs_sb_alloc :: "dev_t \<Rightarrow> vfs \<Rightarrow> addr option \<times> vfs" where
  "vfs_sb_alloc devid s =
     (case kalloc s of
        (None, s1) \<Rightarrow> (None, s1)
      | (Some a, s1) \<Rightarrow>
          (case list_add_ok s1 of
             (False, s2) \<Rightarrow> (None, s2)
           | (True, s2) \<Rightarrow> (Some a, s2\<lparr>vfs_sbs := vfs_sbs s2 @ [(a, sb_default devid (heap_junk s2))]\<rparr>)))"

text \<open>A write through a superblock pointer.\<close>

definition sb_update :: "addr \<Rightarrow> (vfs_sb \<Rightarrow> vfs_sb) \<Rightarrow> vfs \<Rightarrow> vfs" where
  "sb_update a f s =
     s\<lparr>vfs_sbs := map (\<lambda>(a', sb). if a' = a then (a', f sb) else (a', sb)) (vfs_sbs s)\<rparr>"

text \<open>\<open>vfs_sb_dealloc\<close> takes the first superblock with the device id of \<open>sb\<close> off
  the list and frees \<open>sb\<close>. The two are the same block as long as device ids are unique
  in the list, which \<open>vfs_mount\<close> checks before it allocates; the model keeps a block
  that is still on the list.\<close>

definition vfs_sb_dealloc :: "addr \<Rightarrow> vfs \<Rightarrow> int result" where
  "vfs_sb_dealloc a s =
     (case map_of (vfs_sbs s) a of
        None \<Rightarrow> Inl BadPointer
      | Some sb \<Rightarrow>
          (case sb_fs_type sb of
             None \<Rightarrow> Inl NullDeref
           | Some fta \<Rightarrow>
               (case map_of (vfs_fs_types s) fta of
                  None \<Rightarrow> Inl BadPointer
                | Some ft \<Rightarrow>
                    (case ft_kill_sb ft of
                       None \<Rightarrow>
                         Inr (0, s\<lparr>vfs_sbs :=
                                   list_del (\<lambda>(a', sb'). sb_devid sb' = sb_devid sb) (vfs_sbs s)\<rparr>)
                     | Some kill \<Rightarrow>
                         (let s1 = log_call (Ev_kill_sb a) s in
                          if \<not> kill (sb_devid sb) then Inr (- 1, set_errno E_IO s1)
                          else Inr (0, s1\<lparr>vfs_sbs :=
                                   list_del (\<lambda>(a', sb'). sb_devid sb' = sb_devid sb)
                                     (vfs_sbs s1)\<rparr>))))))"

subsection \<open>Vnodes\<close>

definition vfs_vnode_lookup :: "addr option \<Rightarrow> int \<Rightarrow> vfs \<Rightarrow> (addr \<times> vfs_vnode) option" where
  "vfs_vnode_lookup sb vno s =
     list_find (\<lambda>(a, n). v_no n = vno \<and> v_sb n = sb) (vfs_vnodes s)"

definition vnode_blank :: "addr option \<Rightarrow> vfs_vnode" where
  "vnode_blank sb =
     \<lparr>v_no = 0, v_mode = (FILE_TYPE_OTHER 0, 0), v_size = 0, v_dev = None, v_lookup = None,
      v_sb = sb, v_count = 0\<rparr>"

definition vfs_vnode_prealloc :: "addr option \<Rightarrow> vfs \<Rightarrow> (addr \<times> vfs_vnode) option \<times> vfs" where
  "vfs_vnode_prealloc sb s =
     (case kalloc s of
        (None, s1) \<Rightarrow> (None, set_errno E_NOMEM s1)
      | (Some a, s1) \<Rightarrow> (Some (a, vnode_blank sb), s1))"

definition vfs_vnode_alloc :: "addr \<times> vfs_vnode \<Rightarrow> vfs \<Rightarrow> int \<times> vfs" where
  "vfs_vnode_alloc node s =
     (case list_add_ok s of
        (False, s1) \<Rightarrow> (- 1, s1)
      | (True, s1) \<Rightarrow> (0, s1\<lparr>vfs_vnodes := vfs_vnodes s1 @ [node]\<rparr>))"

definition vfs_vnode_dealloc :: "addr \<times> vfs_vnode \<Rightarrow> vfs \<Rightarrow> int \<times> vfs" where
  "vfs_vnode_dealloc node s =
     (let cmp = (\<lambda>(a', n'). v_no n' = v_no (snd node) \<and> v_sb n' = v_sb (snd node));
          s1 = s\<lparr>vfs_vnodes := list_del cmp (vfs_vnodes s)\<rparr>
      in case list_find cmp (vfs_vnodes s) of
           None \<Rightarrow> (0, s1)
         | Some (a', n') \<Rightarrow> if a' \<noteq> fst node then (- 1, set_errno E_CORRUPT s1) else (0, s1))"

text \<open>A write through a vnode pointer the cache holds.\<close>

definition vnode_update :: "addr \<Rightarrow> (vfs_vnode \<Rightarrow> vfs_vnode) \<Rightarrow> vfs \<Rightarrow> vfs" where
  "vnode_update a f s =
     s\<lparr>vfs_vnodes := map (\<lambda>(a', n). if a' = a then (a', f n) else (a', n)) (vfs_vnodes s)\<rparr>"

definition vfs_vnode_acquire :: "addr \<Rightarrow> vfs \<Rightarrow> vfs" where
  "vfs_vnode_acquire a s = vnode_update a (\<lambda>n. n\<lparr>v_count := int_incr (v_count n)\<rparr>) s"

text \<open>\<open>vfs_vnode_release\<close> is only ever handed a pointer that \<open>vfs_vnode_get_or_read\<close>
  returned; a pointer the cache does not hold is a stray one here.\<close>

definition vfs_vnode_release :: "addr \<Rightarrow> vfs \<Rightarrow> int result" where
  "vfs_vnode_release a s =
     (case map_of (vfs_vnodes s) a of
        None \<Rightarrow> Inl BadPointer
      | Some node \<Rightarrow>
          (let c = int_decr (v_count node);
               s1 = vnode_update a (\<lambda>n. n\<lparr>v_count := c\<rparr>) s
           in if c < 1 then
                (case v_sb node of
                   None \<Rightarrow> Inl NullDeref
                 | Some sba \<Rightarrow>
                     (case map_of (vfs_sbs s1) sba of
                        None \<Rightarrow> Inl BadPointer
                      | Some sb \<Rightarrow>
                          (case destroy_vnode (sb_ops sb) of
                             None \<Rightarrow> Inl NullCall
                           | Some destroy \<Rightarrow>
                               (let s2 = log_call (Ev_destroy_vnode sba (v_no node)) s1 in
                                if \<not> destroy (v_no node) then Inr (- 1, set_errno E_IO s2)
                                else Inr (vfs_vnode_dealloc (a, node\<lparr>v_count := c\<rparr>) s2)))))
              else Inr (0, s1)))"

definition vnode_filled :: "vnode_fill \<Rightarrow> vfs_vnode \<Rightarrow> vfs_vnode" where
  "vnode_filled f n =
     n\<lparr>v_mode := vf_mode f, v_size := vf_size f, v_dev := vf_dev f, v_lookup := vf_lookup f\<rparr>"

definition vfs_vnode_get_or_read :: "addr option \<Rightarrow> int \<Rightarrow> vfs \<Rightarrow> (addr option) result" where
  "vfs_vnode_get_or_read sb vno s =
     (case vfs_vnode_lookup sb vno s of
        Some (a, n) \<Rightarrow> Inr (Some a, vfs_vnode_acquire a s)
      | None \<Rightarrow>
          (case vfs_vnode_prealloc sb s of
             (None, s1) \<Rightarrow> Inr (None, s1)
           | (Some (a, n0), s1) \<Rightarrow>
               (case sb of
                  None \<Rightarrow> Inl NullDeref
                | Some sba \<Rightarrow>
                    (case map_of (vfs_sbs s1) sba of
                       None \<Rightarrow> Inl BadPointer
                     | Some sbr \<Rightarrow>
                         (case read_vnode (sb_ops sbr) of
                            None \<Rightarrow> Inl NullCall
                          | Some rd \<Rightarrow>
                              (let n1 = n0\<lparr>v_no := vno, v_sb := sb\<rparr>;
                                   s2 = log_call (Ev_read_vnode sba vno) s1
                               in case rd vno of
                                    None \<Rightarrow> Inr (None, snd (vfs_vnode_dealloc (a, n1) s2))
                                  | Some fill \<Rightarrow>
                                      (case vfs_vnode_alloc (a, vnode_filled fill n1) s2 of
                                         (r, s3) \<Rightarrow>
                                           if r = - 1 then
                                             (case destroy_vnode (sb_ops sbr) of
                                                None \<Rightarrow> Inl NullCall
                                              | Some destroy \<Rightarrow>
                                                  Inr (None,
                                                    snd (vfs_vnode_dealloc (a, vnode_filled fill n1)
                                                      (log_call (Ev_destroy_vnode sba vno) s3))))
                                           else Inr (Some a, vfs_vnode_acquire a s3))))))))"

definition vfs_vnode_unmount_sb :: "addr \<Rightarrow> vfs \<Rightarrow> int" where
  "vfs_vnode_unmount_sb sb s =
     (case list_find (\<lambda>(a, n). v_sb n = Some sb) (vfs_vnodes s) of
        None \<Rightarrow> 0
      | Some x \<Rightarrow> - 1)"

subsection \<open>Lookup\<close>

text \<open>A write through a dentry pointer.\<close>

definition dentry_update :: "nat \<Rightarrow> (vfs_dentry \<Rightarrow> vfs_dentry) \<Rightarrow> vfs \<Rightarrow> vfs" where
  "dentry_update i f s = s\<lparr>vfs_dentries := (vfs_dentries s)[i := f (vfs_dentries s ! i)]\<rparr>"

text \<open>The vnode of the directory \<open>dir\<close>, loaded for one lookup: through the mounted
  superblock and its root vnode number when \<open>dir\<close> is a mount point.\<close>

definition lookup_dir_node :: "nat \<Rightarrow> vfs \<Rightarrow> (addr option) result" where
  "lookup_dir_node dir s =
     (case d_mnt_sb (vfs_dentries s ! dir) of
        None \<Rightarrow>
          vfs_vnode_get_or_read (d_sb (vfs_dentries s ! dir)) (d_vno (vfs_dentries s ! dir)) s
      | Some m \<Rightarrow>
          (case map_of (vfs_sbs s) m of
             None \<Rightarrow> Inl BadPointer
           | Some msb \<Rightarrow> vfs_vnode_get_or_read (Some m) (sb_root_vno msb) s))"

definition vfs_lookup_in_dentry :: "nat option \<Rightarrow> string \<Rightarrow> vfs \<Rightarrow> (nat option) result" where
  "vfs_lookup_in_dentry dir name s =
     (case vfs_dentry_get dir name s of
        Inl f \<Rightarrow> Inl f
      | Inr (None, s1) \<Rightarrow> Inr (None, set_errno E_LIMIT s1)
      | Inr (Some obj, s1) \<Rightarrow>
          if d_vno (vfs_dentries s1 ! obj) \<noteq> 0 then Inr (Some obj, s1)
          else
            (case dir of
               None \<Rightarrow> Inl NullDeref
             | Some dr \<Rightarrow>
                 if \<not> dentry_ptr_ok dir then Inl BadPointer
                 else
                   (case lookup_dir_node dr s1 of
                      Inl f \<Rightarrow> Inl f
                    | Inr (None, s2) \<Rightarrow> Inr (None, set_errno E_CORRUPT (vfs_dentry_reset obj s2))
                    | Inr (Some na, s2) \<Rightarrow>
                        (case map_of (vfs_vnodes s2) na of
                           None \<Rightarrow> Inl BadPointer
                         | Some dir_node \<Rightarrow>
                             if FILE_TYPE (v_mode dir_node) \<noteq> FILE_TYPE_DIRECTORY then
                               (case vfs_vnode_release na (vfs_dentry_reset obj s2) of
                                  Inl f \<Rightarrow> Inl f
                                | Inr (r, s3) \<Rightarrow> Inr (None, set_errno E_NODIR s3))
                             else
                               (case v_lookup dir_node of
                                  None \<Rightarrow> Inl NullCall
                                | Some lookup \<Rightarrow>
                                    (case lookup name of
                                       Inl err \<Rightarrow>
                                         (case vfs_vnode_release na
                                                 (vfs_dentry_reset obj
                                                    (set_errno err (log_call (Ev_lookup na name) s2))) of
                                            Inl f \<Rightarrow> Inl f
                                          | Inr (r, s3) \<Rightarrow> Inr (None, set_errno err s3))
                                     | Inr vno \<Rightarrow>
                                         (case vfs_vnode_release na
                                                 (dentry_update obj (\<lambda>d. d\<lparr>d_vno := vno\<rparr>)
                                                    (log_call (Ev_lookup na name) s2)) of
                                            Inl f \<Rightarrow> Inl f
                                          | Inr (r, s3) \<Rightarrow> Inr (Some obj, s3))))))))"

text \<open>Modelled from the spec: string.h is missing, and with it the \<open>strtok\<close> that takes
  a single separator character. The spec has the path "tokenized on separator
  boundaries": the components are the maximal runs of other characters.\<close>

fun strtok_acc :: "char \<Rightarrow> string \<Rightarrow> string \<Rightarrow> string list" where
  "strtok_acc c acc [] = (if acc = [] then [] else [rev acc])"
| "strtok_acc c acc (x # xs) =
     (if x = c then (if acc = [] then strtok_acc c [] xs else rev acc # strtok_acc c [] xs)
      else strtok_acc c (x # acc) xs)"

definition strtok_all :: "string \<Rightarrow> char \<Rightarrow> string list" where
  "strtok_all str c = strtok_acc c [] str"

text \<open>The \<open>while\<close> loop of \<open>vfs_lookup\<close> over the components still to come. It leaves
  with a null pointer as soon as a component fails and with the last dentry at the end
  of the path.\<close>

fun lookup_walk :: "string list \<Rightarrow> nat option \<Rightarrow> vfs \<Rightarrow> (nat option) result" where
  "lookup_walk [] obj s = Inr (obj, s)"
| "lookup_walk (path_comp # rest) obj s =
     (case vfs_lookup_in_dentry obj path_comp s of
        Inl f \<Rightarrow> Inl f
      | Inr (None, s1) \<Rightarrow> Inr (None, s1)
      | Inr (Some obj', s1) \<Rightarrow> lookup_walk rest (Some obj') s1)"

text \<open>\<open>vfs_lookup\<close> allocates \<open>tmp_path\<close> and tokenizes it without ever copying \<open>path\<close>
  into it, so what it walks is the content the fresh block happens to have: \<open>tmp\<close>.
  Whatever the walk gives, the statement after the loop is \<open>return NULL\<close>.\<close>

definition vfs_lookup :: "string \<Rightarrow> string \<Rightarrow> vfs \<Rightarrow> (nat option) result" where
  "vfs_lookup path tmp s =
     (case kalloc s of
        (None, s1) \<Rightarrow> Inr (None, set_errno E_NOMEM s1)
      | (Some tmp_path, s1) \<Rightarrow>
          (case lookup_walk (strtok_all tmp CHR ''/'') (vfs_root_dentry s1) s1 of
             Inl f \<Rightarrow> Inl f
           | Inr (obj, s2) \<Rightarrow> Inr (None, s2)))"

subsection \<open>Initialisation, mount and unmount\<close>

definition vfs_init :: "bool list \<Rightarrow> (int \<Rightarrow> bool) option \<Rightarrow> vfs" where
  "vfs_init allocs junk =
     \<lparr>vfs_root_dentry = None, vfs_fs_types = [], vfs_sbs = [],
      vfs_dentries = replicate VFS_MAX_DENTRIES dentry_zero, vfs_vnodes = [],
      vfs_errno = None, heap_next = 1, alloc_ok = allocs, heap_junk = junk,
      backend_calls = []\<rparr>"

text \<open>The first part of \<open>vfs_mount\<close>, "check the validity of the path to be used as
  mountpoint": it yields the mount-point dentry \<open>d\<close>, or a null pointer where the C
  code has set errno and returned -1.\<close>

definition vfs_mount_point :: "string \<Rightarrow> string \<Rightarrow> vfs \<Rightarrow> (nat option) result" where
  "vfs_mount_point path tmp s =
     (case vfs_root_dentry s of
        None \<Rightarrow>
          if path \<noteq> ''/'' then Inr (None, set_errno E_NOROOT s)
          else
            (case vfs_dentry_get None ''/'' s of
               Inl f \<Rightarrow> Inl f
             | Inr (None, s1) \<Rightarrow> Inr (None, set_errno E_NOMEM s1)
             | Inr (Some d, s1) \<Rightarrow> Inr (Some d, s1))
      | Some root \<Rightarrow>
          if path \<noteq> ''/'' then
            (case vfs_lookup path tmp s of
               Inl f \<Rightarrow> Inl f
             | Inr (None, s1) \<Rightarrow> Inr (None, set_errno E_NOENT s1)
             | Inr (Some d, s1) \<Rightarrow>
                 if d_mnt_sb (vfs_dentries s1 ! d) \<noteq> None then Inr (None, set_errno E_ACCESS s1)
                 else
                   (case vfs_vnode_get_or_read (d_sb (vfs_dentries s1 ! d))
                           (d_vno (vfs_dentries s1 ! d)) s1 of
                      Inl f \<Rightarrow> Inl f
                    | Inr (None, s2) \<Rightarrow> Inr (None, set_errno E_CORRUPT s2)
                    | Inr (Some na, s2) \<Rightarrow>
                        (case map_of (vfs_vnodes s2) na of
                           None \<Rightarrow> Inl BadPointer
                         | Some n \<Rightarrow>
                             if FILE_TYPE (v_mode n) \<noteq> FILE_TYPE_DIRECTORY
                             then Inr (None, set_errno E_NODIR s2)
                             else Inr (Some d, s2))))
          else Inr (None, set_errno E_NOTIMP s))"

definition sb_filled :: "sb_fill \<Rightarrow> vfs_sb \<Rightarrow> vfs_sb" where
  "sb_filled f sb =
     sb\<lparr>sb_blocksize := sf_blocksize f, sb_blocks := sf_blocks f, sb_max_bytes := sf_max_bytes f,
        sb_flags := sf_flags f, sb_ops := sf_ops f, sb_root_vno := sf_root_vno f\<rparr>"

text \<open>The last statements of \<open>vfs_mount\<close>, "link dentry and mountpoint".\<close>

definition vfs_mount_link :: "nat \<Rightarrow> addr \<Rightarrow> vfs \<Rightarrow> vfs" where
  "vfs_mount_link d sb s =
     (let s1 = dentry_update d (\<lambda>x. x\<lparr>d_mnt_sb := Some sb\<rparr>) s in
      if d_parent (vfs_dentries s1 ! d) = None then s1\<lparr>vfs_root_dentry := Some d\<rparr> else s1)"

definition vfs_mount :: "dev_t \<Rightarrow> string \<Rightarrow> string \<Rightarrow> string \<Rightarrow> vfs \<Rightarrow> int result" where
  "vfs_mount devid path fs_type tmp s =
     (case vfs_mount_point path tmp s of
        Inl f \<Rightarrow> Inl f
      | Inr (None, s1) \<Rightarrow> Inr (- 1, s1)
      | Inr (Some d, s1) \<Rightarrow>
          (case vfs_fs_type_lookup fs_type s1 of
             None \<Rightarrow> Inr (- 1, set_errno E_NOKOBJ (vfs_dentry_reset d s1))
           | Some (fta, ft) \<Rightarrow>
               (case vfs_sb_lookup devid s1 of
                  Some x \<Rightarrow> Inr (- 1, set_errno E_MOUNTED (vfs_dentry_reset d s1))
                | None \<Rightarrow>
                    (case vfs_sb_alloc devid s1 of
                       (None, s2) \<Rightarrow> Inr (- 1, set_errno E_NOMEM (vfs_dentry_reset d s2))
                     | (Some sb, s2) \<Rightarrow>
                         (case ft_get_sb ft of
                            None \<Rightarrow> Inl NullCall
                          | Some probe \<Rightarrow>
                              (case probe devid of
                                 None \<Rightarrow>
                                   (case vfs_sb_dealloc sb (log_call (Ev_get_sb sb) s2) of
                                      Inl f \<Rightarrow> Inl f
                                    | Inr (r, s3) \<Rightarrow>
                                        Inr (- 1, set_errno E_INVFS (vfs_dentry_reset d s3)))
                               | Some fill \<Rightarrow>
                                   (let s3 = sb_update sb
                                               (\<lambda>x. (sb_filled fill x)\<lparr>sb_fs_type := Some fta\<rparr>)
                                               (log_call (Ev_get_sb sb) s2)
                                    in case mount (sf_ops fill) of
                                         None \<Rightarrow> Inl NullCall
                                       | Some mnt \<Rightarrow>
                                           if \<not> mnt devid then
                                             (case ft_kill_sb ft of
                                                None \<Rightarrow> Inl NullCall
                                              | Some kill \<Rightarrow>
                                                  (case vfs_sb_dealloc sb
                                                          (log_call (Ev_kill_sb sb)
                                                             (log_call (Ev_mount sb) s3)) of
                                                     Inl f \<Rightarrow> Inl f
                                                   | Inr (r, s4) \<Rightarrow>
                                                       Inr (- 1, set_errno E_IO
                                                                   (vfs_dentry_reset d s4))))
                                           else
                                             Inr (0, vfs_mount_link d sb
                                                       (log_call (Ev_mount sb) s3)))))))))"

definition vfs_sb_unmount :: "addr \<Rightarrow> vfs \<Rightarrow> int result" where
  "vfs_sb_unmount sb s =
     (case map_of (vfs_sbs s) sb of
        None \<Rightarrow> Inl BadPointer
      | Some sbr \<Rightarrow>
          if sb_flags sbr \<noteq> VFS_SB_F_MOUNTED then Inr (- 1, set_errno E_NOTMOUNTED s)
          else if vfs_vnode_unmount_sb sb s = - 1 then Inr (- 1, set_errno E_CORRUPT s)
          else
            (case vfs_dentry_unmount_sb sb s of
               (r, s1) \<Rightarrow>
                 if r = - 1 then Inr (- 1, set_errno E_BUSY s1)
                 else
                   (case unmount (sb_ops sbr) of
                      None \<Rightarrow> Inl NullCall
                    | Some unmnt \<Rightarrow>
                        if \<not> unmnt (sb_devid sbr)
                        then Inr (- 1, set_errno E_IO (log_call (Ev_unmount sb) s1))
                        else
                          (case sb_mnt sbr of
                             None \<Rightarrow> Inl NullDeref
                           | Some mp \<Rightarrow>
                               if VFS_MAX_DENTRIES \<le> mp then Inl BadPointer
                               else
                                 Inr (0,
                                   sb_update sb (\<lambda>x. x\<lparr>sb_flags := VFS_SB_F_UNUSED, sb_mnt := None\<rparr>)
                                     (dentry_update mp (\<lambda>d. d\<lparr>d_mnt_sb := None\<rparr>)
                                        (log_call (Ev_unmount sb) s1)))))))"

section \<open>Properties\<close>

subsection \<open>What is stated about the dentry cache\<close>

text \<open>The loops are unfolded one iteration at a time, where a proof asks for it.\<close>

declare dentry_scan.simps [simp del]
declare dentry_unmount_check.simps [simp del]
declare dentry_unmount_reset.simps [simp del]

text \<open>A call evicts slot \<open>i\<close> when the slot was occupied and afterwards no longer holds
  the same entry; the frequency counter alone may differ.\<close>

definition evicts :: "vfs_dentry list \<Rightarrow> vfs_dentry list \<Rightarrow> nat \<Rightarrow> bool" where
  "evicts ds ds' i \<longleftrightarrow>
     d_name (ds ! i) \<noteq> None \<and> ds' ! i \<noteq> (ds ! i)\<lparr>d_count := d_count (ds' ! i)\<rparr>"







subsection \<open>What is stated about unmounting\<close>

text \<open>A vnode of the cache belongs to \<open>sb\<close>; an occupied slot of the dentry table that
  belongs to \<open>sb\<close> is a mount point; a dentry is an occupied slot that belongs to \<open>sb\<close>.\<close>

definition sb_has_live_vnode :: "addr \<Rightarrow> vfs \<Rightarrow> bool" where
  "sb_has_live_vnode sb s \<longleftrightarrow> (\<exists>(a, n)\<in>set (vfs_vnodes s). v_sb n = Some sb)"

definition sb_has_nested_mount :: "addr \<Rightarrow> vfs \<Rightarrow> bool" where
  "sb_has_nested_mount sb s \<longleftrightarrow>
     (\<exists>j<VFS_MAX_DENTRIES. d_name (vfs_dentries s ! j) \<noteq> None \<and>
        d_sb (vfs_dentries s ! j) = Some sb \<and> d_mnt_sb (vfs_dentries s ! j) \<noteq> None)"

definition dentry_owned :: "addr \<Rightarrow> vfs_dentry \<Rightarrow> bool" where
  "dentry_owned sb d \<longleftrightarrow> d_name d \<noteq> None \<and> d_sb d = Some sb"

subsection \<open>What is stated about the vnode cache\<close>

text \<open>The cache is well formed: no address and no key (superblock and vnode number)
  occurs twice, every address has been handed out by the allocator, and no reference
  count is negative or about to wrap around.\<close>

definition vnodes_wf :: "vfs \<Rightarrow> bool" where
  "vnodes_wf s \<longleftrightarrow>
     distinct (map fst (vfs_vnodes s)) \<and>
     distinct (map (\<lambda>(a, n). (v_sb n, v_no n)) (vfs_vnodes s)) \<and>
     (\<forall>(a, n)\<in>set (vfs_vnodes s). a < heap_next s \<and> 0 \<le> v_count n \<and> v_count n < INT_MAX)"

subsection \<open>What is stated about mounting\<close>

text \<open>The two registries: of superblocks and of filesystem types.\<close>

definition regs :: "vfs \<Rightarrow> (addr \<times> vfs_sb) list \<times> (addr \<times> vfs_fs_type) list" where
  "regs s = (vfs_sbs s, vfs_fs_types s)"

subsection \<open>Example configurations\<close>

text \<open>A full table: the root dentry, a mount point, in slot 0 and below it a chain of
  ninety-nine directories, each used less often than the one above.\<close>

definition full_table :: "vfs_dentry list" where
  "full_table =
     map (\<lambda>i. if i = 0
               then \<lparr>d_name = Some ''/'', d_vno = 0, d_parent = None, d_sb = None,
                     d_mnt_sb = Some 2, d_count = 1\<rparr>
               else \<lparr>d_name = Some ''d'', d_vno = int i + 1, d_parent = Some (i - 1),
                     d_sb = Some 2, d_mnt_sb = None, d_count = 100 - int i\<rparr>)
       [0..<VFS_MAX_DENTRIES]"

definition s_full :: "bool list \<Rightarrow> vfs" where
  "s_full allocs = (vfs_init allocs None)\<lparr>vfs_root_dentry := Some 0, vfs_dentries := full_table\<rparr>"

text \<open>A backend whose every vnode is a directory holding the single entry \<open>mnt\<close>, with
  vnode number 2. Its probe marks the superblock mounted.\<close>

definition dir_fill :: vnode_fill where
  "dir_fill =
     \<lparr>vf_mode = (FILE_TYPE_DIRECTORY, 493), vf_size = 0, vf_dev = None,
      vf_lookup = Some (\<lambda>name. if name = ''mnt'' then Inr 2 else Inl E_NOENT)\<rparr>"

definition demo_sb_ops :: "bool \<Rightarrow> bool \<Rightarrow> bool \<Rightarrow> vfs_sb_ops" where
  "demo_sb_ops destroy_ok mount_ok unmount_ok =
     \<lparr>read_vnode = Some (\<lambda>vno. Some dir_fill), write_vnode = None, delete_vnode = None,
      destroy_vnode = Some (\<lambda>vno. destroy_ok), mount = Some (\<lambda>dev. mount_ok),
      unmount = Some (\<lambda>dev. unmount_ok)\<rparr>"

definition demo_fill :: "bool \<Rightarrow> sb_fill" where
  "demo_fill mount_ok =
     \<lparr>sf_blocksize = 1024, sf_blocks = 64, sf_max_bytes = 65536, sf_flags = VFS_SB_F_MOUNTED,
      sf_ops = demo_sb_ops True mount_ok True, sf_root_vno = 1\<rparr>"

text \<open>Three registered filesystem types: \<open>rootfs\<close> works, the probe of \<open>badfs\<close> fails,
  and \<open>iofs\<close> probes well but neither mounts nor lets its superblock go.\<close>

definition demo_fs_types :: "(addr \<times> vfs_fs_type) list" where
  "demo_fs_types =
     [(10, \<lparr>ft_name = ''rootfs'', ft_get_sb = Some (\<lambda>dev. Some (demo_fill True)),
            ft_kill_sb = Some (\<lambda>dev. True)\<rparr>),
      (11, \<lparr>ft_name = ''badfs'', ft_get_sb = Some (\<lambda>dev. None),
            ft_kill_sb = Some (\<lambda>dev. True)\<rparr>),
      (12, \<lparr>ft_name = ''iofs'', ft_get_sb = Some (\<lambda>dev. Some (demo_fill False)),
            ft_kill_sb = Some (\<lambda>dev. False)\<rparr>)]"

text \<open>The state after \<open>vfs_init\<close> and the registration of the three types.\<close>

definition boot_table :: "vfs_dentry list" where
  "boot_table = replicate VFS_MAX_DENTRIES dentry_zero"

definition s_boot :: vfs where
  "s_boot =
     \<lparr>vfs_root_dentry = None, vfs_fs_types = demo_fs_types, vfs_sbs = [],
      vfs_dentries = boot_table, vfs_vnodes = [], vfs_errno = None, heap_next = 1,
      alloc_ok = [], heap_junk = None, backend_calls = []\<rparr>"

text \<open>The state after device 1 has been mounted on \<open>/\<close> as \<open>rootfs\<close>: the root dentry
  sits in slot 99 and the superblock at address 2.\<close>

definition root_dentry :: vfs_dentry where
  "root_dentry =
     \<lparr>d_name = Some ''/'', d_vno = 0, d_parent = None, d_sb = None, d_mnt_sb = Some 2,
      d_count = 1\<rparr>"

definition root_sb :: vfs_sb where
  "root_sb = (sb_filled (demo_fill True) (sb_default 1 None))\<lparr>sb_fs_type := Some 10\<rparr>"

definition s_root :: vfs where
  "s_root =
     \<lparr>vfs_root_dentry = Some 99, vfs_fs_types = demo_fs_types, vfs_sbs = [(2, root_sb)],
      vfs_dentries = boot_table[99 := root_dentry], vfs_vnodes = [], vfs_errno = None,
      heap_next = 3, alloc_ok = [], heap_junk = None,
      backend_calls = [Ev_get_sb 2, Ev_mount 2]\<rparr>"

text \<open>The same after \<open>/mnt\<close> has been looked up once: its dentry sits in slot 98.\<close>

definition mnt_dentry :: vfs_dentry where
  "mnt_dentry =
     \<lparr>d_name = Some ''mnt'', d_vno = 2, d_parent = Some 99, d_sb = Some 2, d_mnt_sb = None,
      d_count = 1\<rparr>"

definition s_mnt :: vfs where
  "s_mnt =
     s_root\<lparr>vfs_dentries := boot_table[99 := root_dentry, 98 := mnt_dentry], heap_next := 5,
       backend_calls := [Ev_get_sb 2, Ev_mount 2, Ev_read_vnode 2 1, Ev_lookup 4 ''mnt'',
                         Ev_destroy_vnode 2 1]\<rparr>"

text \<open>The same after \<open>/mnt\<close> has been resolved a second time, from the cache.\<close>

definition s_mnt_hit :: vfs where
  "s_mnt_hit = s_mnt\<lparr>vfs_dentries := boot_table[99 := root_dentry, 98 := mnt_dentry\<lparr>d_count := 2\<rparr>],
      heap_next := 6\<rparr>"

text \<open>The state after the mount on \<open>/\<close> and \<open>k\<close> calls of \<open>vfs_dentry_get\<close> for \<open>mnt\<close> under
  the root, as far as the counter has not wrapped around: the dentry sits in slot 98 with
  counter \<open>k\<close>. And the state after a dentry for \<open>x\<close> has taken that slot.\<close>

definition hit_dentry :: "int \<Rightarrow> vfs_dentry" where
  "hit_dentry k =
     \<lparr>d_name = Some ''mnt'', d_vno = 0, d_parent = Some 99, d_sb = Some 2, d_mnt_sb = None,
      d_count = k\<rparr>"

definition s_hits :: "int \<Rightarrow> vfs" where
  "s_hits k = s_root\<lparr>heap_next := 4, vfs_dentries := boot_table[99 := root_dentry, 98 := hit_dentry k]\<rparr>"



text \<open>The state a mount is meant to leave, with the superblock linked back to its mount
  point in slot 99; \<open>unmount_ok\<close> is what the unmount callback of the backend answers.\<close>

definition s_linked :: "bool \<Rightarrow> vfs" where
  "s_linked unmount_ok =
     s_mnt\<lparr>vfs_sbs := [(2, root_sb\<lparr>sb_ops := demo_sb_ops True True unmount_ok,
                                    sb_mnt := Some 99\<rparr>)]\<rparr>"

text \<open>The example with a backend whose \<open>destroy_vnode\<close> fails, before and after the root
  directory's vnode is acquired, and after it is released again.\<close>

definition s_pin0 :: vfs where
  "s_pin0 = s_mnt\<lparr>vfs_sbs := [(2, root_sb\<lparr>sb_ops := demo_sb_ops False True True\<rparr>)]\<rparr>"







text \<open>The state after a mount of \<open>iofs\<close> on \<open>/\<close> has failed as the first mount.\<close>

definition io_sb :: vfs_sb where
  "io_sb = (sb_filled (demo_fill False) (sb_default 1 None))\<lparr>sb_fs_type := Some 12\<rparr>"

definition s_leak :: vfs where
  "s_leak =
     s_boot\<lparr>vfs_sbs := [(2, io_sb)], heap_next := 3, vfs_errno := Some E_IO,
       backend_calls := [Ev_get_sb 2, Ev_mount 2, Ev_kill_sb 2, Ev_kill_sb 2]\<rparr>"

section \<open>Proofs\<close>

subsection \<open>The dentry cache\<close>











lemma scan_index_bound:
  "dentry_scan ds parent name i lowest = NotFound (Some (li, lc)) \<Longrightarrow>
   (\<forall>l c. lowest = Some (l, c) \<longrightarrow> l < VFS_MAX_DENTRIES) \<Longrightarrow> li < VFS_MAX_DENTRIES"
proof (induction ds parent name i lowest rule: dentry_scan.induct)
  case (1 ds parent name i lowest)
  show ?case
  proof (cases "i < VFS_MAX_DENTRIES")
    case False
    with "1.prems" show ?thesis by (simp add: dentry_scan.simps)
  next
    case True
    with "1.prems" "1.IH" show ?thesis
      by (subst (asm) dentry_scan.simps) (auto split: if_splits)
  qed
qed

text \<open>The scan of the full table of the example for a name it does not hold, and the
  call that then runs out of memory.\<close>

lemma scan_full_table: "dentry_scan full_table (Some 0) ''x'' 0 None = NotFound (Some (99, 1))"
  by code_simp

lemma full_table_last: "full_table ! 99 = \<lparr>d_name = Some ''d'', d_vno = 100, d_parent = Some 98,
                     d_sb = Some 2, d_mnt_sb = None, d_count = 1\<rparr>"
  by (simp add: full_table_def VFS_MAX_DENTRIES_def)

lemma dentry_get_full_nomem:
  "vfs_dentry_get (Some 0) ''x'' (s_full [False]) =
     Inr (None, (s_full [])\<lparr>vfs_dentries := full_table[99 := dentry_zero], vfs_errno := Some E_NOMEM\<rparr>)"
  by (simp add: vfs_dentry_get_def s_full_def scan_full_table vfs_init_def vfs_dentry_reset_def
        kalloc_def set_errno_def)

subsection \<open>The loops of unmounting\<close>

lemma list_find_None_iff: "list_find P xs = None \<longleftrightarrow> (\<forall>x\<in>set xs. \<not> P x)"
  by (induction xs) auto

lemma vfs_vnode_unmount_sb_iff:
  "vfs_vnode_unmount_sb sb s = - 1 \<longleftrightarrow> (\<exists>(a, n)\<in>set (vfs_vnodes s). v_sb n = Some sb)"
proof -
  have "list_find (\<lambda>(a, n). v_sb n = Some sb) (vfs_vnodes s) = None \<longleftrightarrow>
        (\<forall>x\<in>set (vfs_vnodes s). \<not> (case x of (a, n) \<Rightarrow> v_sb n = Some sb))"
    by (rule list_find_None_iff)
  then show ?thesis
    by (auto simp: vfs_vnode_unmount_sb_def split: option.splits)
qed

lemma dentry_unmount_check_iff:
  "dentry_unmount_check ds sb i \<longleftrightarrow>
     (\<forall>j. i \<le> j \<and> j < VFS_MAX_DENTRIES \<and> d_name (ds ! j) \<noteq> None \<and> d_sb (ds ! j) = Some sb
          \<longrightarrow> d_mnt_sb (ds ! j) = None)"
proof (induction ds sb i rule: dentry_unmount_check.induct)
  case (1 ds sb i)
  show ?case
  proof (cases "i < VFS_MAX_DENTRIES")
    case False
    then show ?thesis by (subst dentry_unmount_check.simps) auto
  next
    case True
    have le: "\<And>j. i \<le> j \<longleftrightarrow> j = i \<or> i + 1 \<le> j" by auto
    show ?thesis
      using True "1.IH"
      by (subst dentry_unmount_check.simps) (auto simp: le)
  qed
qed

lemma dentry_unmount_reset_length [simp]:
  "length (dentry_unmount_reset ds sb i) = length ds"
proof (induction ds sb i rule: dentry_unmount_reset.induct)
  case (1 ds sb i)
  then show ?case
    by (subst dentry_unmount_reset.simps) auto
qed

lemma dentry_unmount_reset_nth:
  "j < length ds \<Longrightarrow>
   dentry_unmount_reset ds sb i ! j =
     (if i \<le> j \<and> j < VFS_MAX_DENTRIES \<and> d_name (ds ! j) \<noteq> None \<and> d_sb (ds ! j) = Some sb
      then dentry_zero else ds ! j)"
proof (induction ds sb i rule: dentry_unmount_reset.induct)
  case (1 ds sb i)
  have le: "i \<le> j \<longleftrightarrow> j = i \<or> i + 1 \<le> j" by auto
  show ?case
  proof (cases "i < VFS_MAX_DENTRIES")
    case False
    then show ?thesis by (subst dentry_unmount_reset.simps) auto
  next
    case True
    show ?thesis
      using True "1.IH" "1.prems"
      by (subst dentry_unmount_reset.simps) (auto simp: le nth_list_update)
  qed
qed

lemma unmount_sb_live: "vfs_vnode_unmount_sb sb s = - 1 \<longleftrightarrow> sb_has_live_vnode sb s"
  by (simp add: vfs_vnode_unmount_sb_iff sb_has_live_vnode_def)

lemma unmount_sb_not_live: "\<not> sb_has_live_vnode sb s \<Longrightarrow> vfs_vnode_unmount_sb sb s \<noteq> - 1"
  by (simp add: unmount_sb_live)

lemma unmount_check_nested:
  "dentry_unmount_check (vfs_dentries s) sb 0 \<longleftrightarrow> \<not> sb_has_nested_mount sb s"
  by (auto simp: dentry_unmount_check_iff sb_has_nested_mount_def)

lemma unmount_reset_owned:
  assumes "length ds = VFS_MAX_DENTRIES" "j < VFS_MAX_DENTRIES"
  shows "dentry_unmount_reset ds sb 0 ! j = (if dentry_owned sb (ds ! j) then dentry_zero else ds ! j)"
  using assms by (simp add: dentry_unmount_reset_nth dentry_owned_def)

subsection \<open>The vnode cache\<close>

lemma list_find_Some: "list_find P xs = Some x \<Longrightarrow> x \<in> set xs \<and> P x"
  by (induction xs) (auto split: if_splits)







lemma vnode_update_other [simp]:
  "vfs_sbs (vnode_update a f s) = vfs_sbs s"
  "backend_calls (vnode_update a f s) = backend_calls s"
  "heap_next (vnode_update a f s) = heap_next s"
  by (simp_all add: vnode_update_def)










subsection \<open>The example configurations\<close>

text \<open>A scan runs over free slots without looking back: it arrives at the next slot
  with the last free one as candidate.\<close>

lemma dentry_scan_skip_empty:
  "i \<le> k \<Longrightarrow> k \<le> VFS_MAX_DENTRIES \<Longrightarrow> (\<forall>j. i \<le> j \<and> j < k \<longrightarrow> d_name (ds ! j) = None) \<Longrightarrow>
   dentry_scan ds parent name i lowest =
     dentry_scan ds parent name k (if i = k then lowest else Some (k - 1, 0))"
proof (induction "k - i" arbitrary: i lowest)
  case 0
  then show ?case by simp
next
  case (Suc n)
  then have lt: "i < k" and "i < VFS_MAX_DENTRIES" and e: "d_name (ds ! i) = None" by auto
  then have "dentry_scan ds parent name i lowest = dentry_scan ds parent name (i + 1) (Some (i, 0))"
    by (subst dentry_scan.simps) simp
  also have "\<dots> = dentry_scan ds parent name k (if i + 1 = k then Some (i, 0) else Some (k - 1, 0))"
    using Suc by (intro Suc.hyps(1)) auto
  also have "\<dots> = dentry_scan ds parent name k (if i = k then lowest else Some (k - 1, 0))"
    using lt by auto
  finally show ?case .
qed

lemma dentry_scan_end: "dentry_scan ds parent name VFS_MAX_DENTRIES lowest = NotFound lowest"
  by (simp add: dentry_scan.simps)

lemma length_boot_table [simp]: "length boot_table = 100"
  by (simp add: boot_table_def VFS_MAX_DENTRIES_def)

lemma nth_boot_table [simp]: "i < 100 \<Longrightarrow> boot_table ! i = dentry_zero"
  by (simp add: boot_table_def VFS_MAX_DENTRIES_def)

lemma boot_table_reset [simp]: "boot_table[i := dentry_zero] = boot_table"
  by (cases "i < VFS_MAX_DENTRIES")
     (auto simp: boot_table_def list_eq_iff_nth_eq nth_list_update list_update_beyond)

lemma scan_boot: "dentry_scan boot_table parent name 0 None = NotFound (Some (99, 0))"
proof -
  have "dentry_scan boot_table parent name 0 None =
        dentry_scan boot_table parent name VFS_MAX_DENTRIES
          (if 0 = VFS_MAX_DENTRIES then None else Some (VFS_MAX_DENTRIES - 1, 0))"
    by (rule dentry_scan_skip_empty) (auto simp: dentry_zero_def VFS_MAX_DENTRIES_def)
  then show ?thesis by (simp add: dentry_scan_end) (simp add: VFS_MAX_DENTRIES_def)
qed

lemma get_boot:
  "vfs_dentry_get None ''/'' s_boot =
     Inr (Some 99, s_boot\<lparr>heap_next := 2, vfs_dentries := boot_table[99 := root_dentry\<lparr>d_mnt_sb := None\<rparr>]\<rparr>)"
  by (simp add: vfs_dentry_get_def s_boot_def scan_boot vfs_dentry_reset_def kalloc_def
        dentry_ptr_ok_def dentry_link_def Let_def dentry_inherit_sb_def root_dentry_def)
     (simp add: dentry_zero_def)

lemma mount_boot: "vfs_mount 1 ''/'' ''rootfs'' tmp s_boot = Inr (0, s_root)"
proof -
  have mp: "vfs_mount_point ''/'' tmp s_boot =
     Inr (Some 99, s_boot\<lparr>heap_next := 2, vfs_dentries := boot_table[99 := root_dentry\<lparr>d_mnt_sb := None\<rparr>]\<rparr>)"
  proof -
    have "vfs_root_dentry s_boot = None" by (simp add: s_boot_def)
    then show ?thesis by (simp add: vfs_mount_point_def get_boot)
  qed
  show ?thesis
    unfolding vfs_mount_def mp
    by (simp add: s_boot_def s_root_def vfs_fs_type_lookup_def demo_fs_types_def
        vfs_sb_lookup_def vfs_sb_alloc_def kalloc_def list_add_ok_def log_call_def sb_update_def
        vfs_mount_link_def dentry_update_def Let_def root_sb_def root_dentry_def demo_fill_def demo_sb_ops_def)
qed

lemma nth_root_table [simp]:
  "(boot_table[99 := root_dentry]) ! 99 = root_dentry"
  "i < 99 \<Longrightarrow> (boot_table[99 := root_dentry]) ! i = dentry_zero"
  by simp_all

lemma scan_root_miss:
  assumes "parent \<noteq> None"
  shows "dentry_scan (boot_table[99 := root_dentry]) parent name 0 None = NotFound (Some (98, 0))"
proof -
  let ?t = "boot_table[99 := root_dentry]"
  have "dentry_scan ?t parent name 0 None =
        dentry_scan ?t parent name 99 (if 0 = (99::nat) then None else Some (99 - 1, 0))"
    by (rule dentry_scan_skip_empty) (auto simp: dentry_zero_def VFS_MAX_DENTRIES_def)
  also have "\<dots> = dentry_scan ?t parent name 100 (Some (98, 0))"
    using assms by (subst dentry_scan.simps) (auto simp: VFS_MAX_DENTRIES_def root_dentry_def)
  also have "\<dots> = NotFound (Some (98, 0))"
    using dentry_scan_end[of ?t parent name] by (simp add: VFS_MAX_DENTRIES_def)
  finally show ?thesis .
qed

lemma get_root_mnt:
  "vfs_dentry_get (Some 99) ''mnt'' s_root =
     Inr (Some 98, s_root\<lparr>heap_next := 4,
            vfs_dentries := boot_table[99 := root_dentry, 98 := mnt_dentry\<lparr>d_vno := 0\<rparr>]\<rparr>)"
  by (simp add: vfs_dentry_get_def s_root_def scan_root_miss vfs_dentry_reset_def kalloc_def
        dentry_ptr_ok_def dentry_link_def Let_def dentry_inherit_sb_def mnt_dentry_def
        VFS_MAX_DENTRIES_def list_update_swap[of 98 99])
     (simp add: dentry_zero_def root_dentry_def)

lemma root_sb_fields [simp]:
  "sb_root_vno root_sb = 1" "sb_ops root_sb = demo_sb_ops True True True"
  "sb_flags root_sb = VFS_SB_F_MOUNTED" "sb_devid root_sb = 1" "sb_mnt root_sb = None"
  "sb_fs_type root_sb = Some 10"
  by (simp_all add: root_sb_def sb_filled_def sb_default_def demo_fill_def)

lemma lookup_root_mnt: "vfs_lookup_in_dentry (Some 99) ''mnt'' s_root = Inr (Some 98, s_mnt)"
proof -
  let ?s1 = "s_root\<lparr>heap_next := 4,
            vfs_dentries := boot_table[99 := root_dentry, 98 := mnt_dentry\<lparr>d_vno := 0\<rparr>]\<rparr>"
  let ?node = "vnode_filled dir_fill ((vnode_blank (Some 2))\<lparr>v_no := 1, v_sb := Some 2\<rparr>)"
  let ?s2 = "?s1\<lparr>heap_next := 5, vfs_vnodes := [(4, ?node\<lparr>v_count := 1\<rparr>)],
                 backend_calls := [Ev_get_sb 2, Ev_mount 2, Ev_read_vnode 2 1]\<rparr>"
  have dir: "lookup_dir_node 99 ?s1 = Inr (Some 4, ?s2)"
    by (simp add: lookup_dir_node_def s_root_def root_dentry_def vfs_vnode_get_or_read_def
          vfs_vnode_lookup_def vfs_vnode_prealloc_def kalloc_def demo_sb_ops_def log_call_def
          vfs_vnode_alloc_def list_add_ok_def vfs_vnode_acquire_def vnode_update_def Let_def
          int_incr_def INT_MAX_def vnode_filled_def vnode_blank_def)
  have rel: "vfs_vnode_release 4
               (dentry_update 98 (\<lambda>d. d\<lparr>d_vno := 2\<rparr>) (log_call (Ev_lookup 4 ''mnt'') ?s2)) =
             Inr (0, s_mnt)"
    by (simp add: vfs_vnode_release_def dentry_update_def log_call_def s_root_def s_mnt_def
          vnode_update_def Let_def int_decr_def INT_MAX_def vnode_filled_def vnode_blank_def
          demo_sb_ops_def vfs_vnode_dealloc_def mnt_dentry_def)
  have node: "map_of (vfs_vnodes ?s2) 4 = Some (?node\<lparr>v_count := 1\<rparr>)" by simp
  have vno0: "d_vno (vfs_dentries ?s1 ! 98) = 0" by (simp add: mnt_dentry_def)
  show ?thesis
    unfolding vfs_lookup_in_dentry_def get_root_mnt
    using dir rel node vno0
    by (simp add: dentry_ptr_ok_def VFS_MAX_DENTRIES_def vnode_filled_def vnode_blank_def
          dir_fill_def FILE_TYPE_def)
qed

lemma strtok_mnt: "strtok_all ''/mnt'' CHR ''/'' = [''mnt'']"
  by (simp add: strtok_all_def)

lemma strtok_root: "strtok_all ''/'' CHR ''/'' = []"
  by (simp add: strtok_all_def)

lemma scan_mnt_hit:
  "dentry_scan (boot_table[99 := root_dentry, 98 := mnt_dentry]) (Some 99) ''mnt'' 0 None = Found 98"
proof -
  let ?t = "boot_table[99 := root_dentry, 98 := mnt_dentry]"
  have "dentry_scan ?t (Some 99) ''mnt'' 0 None =
        dentry_scan ?t (Some 99) ''mnt'' 98 (if 0 = (98::nat) then None else Some (98 - 1, 0))"
    by (rule dentry_scan_skip_empty) (auto simp: dentry_zero_def VFS_MAX_DENTRIES_def)
  also have "\<dots> = Found 98"
    by (subst dentry_scan.simps) (simp add: VFS_MAX_DENTRIES_def mnt_dentry_def)
  finally show ?thesis .
qed

lemma get_mnt_hit:
  "vfs_dentry_get (Some 99) ''mnt'' (s_mnt\<lparr>heap_next := 6\<rparr>) = Inr (Some 98, s_mnt_hit)"
  by (simp add: vfs_dentry_get_def s_mnt_def s_root_def scan_mnt_hit s_mnt_hit_def)
     (simp add: int_incr_def INT_MAX_def mnt_dentry_def)

lemma walk_mnt:
  "lookup_walk [''mnt''] (Some 99) (s_mnt\<lparr>heap_next := 6\<rparr>) = Inr (Some 98, s_mnt_hit)"
proof -
  have "d_vno (vfs_dentries s_mnt_hit ! 98) \<noteq> 0"
    by (simp add: s_mnt_hit_def mnt_dentry_def)
  then show ?thesis
    by (simp add: vfs_lookup_in_dentry_def get_mnt_hit)
qed

lemma mnt_table_nth:
  "j < 100 \<Longrightarrow> (boot_table[99 := root_dentry, 98 := mnt_dentry]) ! j =
     (if j = 98 then mnt_dentry else if j = 99 then root_dentry else dentry_zero)"
  by (simp add: nth_list_update)

lemma s_linked_fields [simp]:
  "vfs_dentries (s_linked b) = boot_table[99 := root_dentry, 98 := mnt_dentry]"
  "vfs_vnodes (s_linked b) = []"
  "vfs_sbs (s_linked b) = [(2, root_sb\<lparr>sb_ops := demo_sb_ops True True b, sb_mnt := Some 99\<rparr>)]"
  by (simp_all add: s_linked_def s_mnt_def s_root_def)

lemma s_linked_no_vnode: "\<not> sb_has_live_vnode 2 (s_linked b)"
  by (simp add: sb_has_live_vnode_def)

lemma demo_dentry_sel [simp]:
  "d_name root_dentry = Some ''/''" "d_sb root_dentry = None" "d_mnt_sb root_dentry = Some 2"
  "d_parent root_dentry = None"
  "d_name mnt_dentry = Some ''mnt''" "d_sb mnt_dentry = Some 2" "d_mnt_sb mnt_dentry = None"
  "d_parent mnt_dentry = Some 99" "d_vno mnt_dentry = 2" "d_count mnt_dentry = 1"
  "d_name dentry_zero = None" "d_sb dentry_zero = None" "d_mnt_sb dentry_zero = None"
  by (simp_all add: root_dentry_def mnt_dentry_def dentry_zero_def)

lemma s_linked_no_nested: "\<not> sb_has_nested_mount 2 (s_linked b)"
  by (auto simp: sb_has_nested_mount_def VFS_MAX_DENTRIES_def mnt_table_nth split: if_splits)

lemma s_linked_reset:
  "dentry_unmount_reset (vfs_dentries (s_linked b)) 2 0 = boot_table[99 := root_dentry]"
  by (auto simp: list_eq_iff_nth_eq dentry_unmount_reset_nth mnt_table_nth nth_list_update
        VFS_MAX_DENTRIES_def)

lemma s_linked_check: "dentry_unmount_check (vfs_dentries (s_linked b)) 2 0"
  using s_linked_no_nested[of b] unmount_check_nested[of "s_linked b" 2] by blast



lemma s_pin0_wf: "vnodes_wf s_pin0"
  by (simp add: vnodes_wf_def s_pin0_def s_mnt_def s_root_def)







subsection \<open>What the operations leave alone\<close>

lemma regs_simps [simp]:
  "regs (set_errno e s) = regs s"
  "regs (log_call ev s) = regs s"
  "regs (vnode_update a f s) = regs s"
  "regs (dentry_update i g s) = regs s"
  "regs (vfs_dentry_reset i s) = regs s"
  "regs (vfs_vnode_acquire a s) = regs s"
  "regs (s\<lparr>vfs_dentries := ds\<rparr>) = regs s"
  "regs (s\<lparr>vfs_vnodes := vs\<rparr>) = regs s"
  "regs (s\<lparr>vfs_errno := er\<rparr>) = regs s"
  by (simp_all add: regs_def set_errno_def log_call_def vnode_update_def dentry_update_def
        vfs_dentry_reset_def vfs_vnode_acquire_def)

lemma kalloc_regs: "kalloc s = (r, s') \<Longrightarrow> regs s' = regs s"
  by (auto simp: kalloc_def regs_def split: list.splits if_splits)

lemma list_add_ok_regs: "list_add_ok s = (r, s') \<Longrightarrow> regs s' = regs s"
  by (auto simp: list_add_ok_def regs_def split: list.splits)

lemma vnode_prealloc_regs: "vfs_vnode_prealloc sb s = (r, s') \<Longrightarrow> regs s' = regs s"
  by (auto simp: vfs_vnode_prealloc_def split: prod.splits option.splits dest: kalloc_regs)

lemma vnode_alloc_regs: "vfs_vnode_alloc n s = (r, s') \<Longrightarrow> regs s' = regs s"
  by (auto simp: vfs_vnode_alloc_def split: prod.splits bool.splits dest: list_add_ok_regs)

lemma vnode_dealloc_regs: "regs (snd (vfs_vnode_dealloc n s)) = regs s"
  by (auto simp: vfs_vnode_dealloc_def Let_def split: option.splits)

lemma vnode_dealloc_regs': "vfs_vnode_dealloc n s = (r, s') \<Longrightarrow> regs s' = regs s"
  using vnode_dealloc_regs[of n s] by simp

lemma dentry_get_regs: "vfs_dentry_get parent name s = Inr (r, s') \<Longrightarrow> regs s' = regs s"
  by (auto simp: vfs_dentry_get_def split: scan.splits option.splits prod.splits if_splits
        dest: kalloc_regs)

lemma vnode_get_or_read_regs:
  "vfs_vnode_get_or_read sb vno s = Inr (r, s') \<Longrightarrow> regs s' = regs s"
  by (auto simp: vfs_vnode_get_or_read_def Let_def vnode_dealloc_regs
        split: option.splits prod.splits if_splits
        dest!: vnode_prealloc_regs vnode_alloc_regs)

lemma vnode_release_regs: "vfs_vnode_release a s = Inr (r, s') \<Longrightarrow> regs s' = regs s"
  by (auto simp: vfs_vnode_release_def Let_def
        split: option.splits if_splits dest!: vnode_dealloc_regs')

lemma lookup_dir_node_regs: "lookup_dir_node dir s = Inr (r, s') \<Longrightarrow> regs s' = regs s"
  by (auto simp: lookup_dir_node_def split: option.splits dest: vnode_get_or_read_regs)

lemma lookup_in_dentry_regs:
  "vfs_lookup_in_dentry dir name s = Inr (r, s') \<Longrightarrow> regs s' = regs s"
  by (auto simp: vfs_lookup_in_dentry_def
        split: sum.splits option.splits prod.splits if_splits
        dest!: dentry_get_regs lookup_dir_node_regs vnode_release_regs)

lemma lookup_walk_regs: "lookup_walk comps obj s = Inr (r, s') \<Longrightarrow> regs s' = regs s"
proof (induction comps arbitrary: obj s)
  case Nil
  then show ?case by simp
next
  case (Cons c comps)
  then show ?case
    by (auto split: sum.splits option.splits prod.splits dest!: lookup_in_dentry_regs)
qed

lemma vfs_lookup_regs: "vfs_lookup path tmp s = Inr (r, s') \<Longrightarrow> regs s' = regs s"
  by (auto simp: vfs_lookup_def split: sum.splits option.splits prod.splits
        dest!: kalloc_regs lookup_walk_regs)

lemma mount_point_regs: "vfs_mount_point path tmp s = Inr (r, s') \<Longrightarrow> regs s' = regs s"
  by (auto simp: vfs_mount_point_def
        split: sum.splits option.splits prod.splits if_splits
        dest!: dentry_get_regs vfs_lookup_regs vnode_get_or_read_regs)

subsection \<open>A counter that wraps around\<close>


lemma hits_table_nth:
  "j < 100 \<Longrightarrow> (boot_table[99 := root_dentry, 98 := hit_dentry k]) ! j =
     (if j = 98 then hit_dentry k else if j = 99 then root_dentry else dentry_zero)"
  by (simp add: nth_list_update)







lemma first_evicts_nothing:
  "i < VFS_MAX_DENTRIES \<Longrightarrow>
   \<not> evicts (vfs_dentries s_root) (vfs_dentries (s_hits k)) i"
  by (simp add: evicts_def s_hits_def s_root_def hits_table_nth VFS_MAX_DENTRIES_def nth_list_update)





subsection \<open>Eviction\<close>




text \<open>
  C9. A \<open>vfs_dentry_get\<close> call that misses, has a slot \<open>li\<close> to use and then gets no
  memory for the name returns a null pointer with \<open>E_NOMEM\<close>, and the state it leaves
  differs from the one before by the reset of slot \<open>li\<close> (and the used-up allocation):
  whatever entry the slot held is gone and the slot is free. The eviction is not undone.
\<close>

theorem dentry_get_nomem_not_rolled_back:
  assumes "length (vfs_dentries s) = VFS_MAX_DENTRIES"
    and "dentry_scan (vfs_dentries s) parent name 0 None = NotFound (Some (li, lc))"
    and "alloc_ok s = False # rest"
  shows "vfs_dentry_get parent name s =
           Inr (None, s\<lparr>vfs_dentries := (vfs_dentries s)[li := dentry_zero],
                         vfs_errno := Some E_NOMEM, alloc_ok := rest\<rparr>) \<and>
         li < VFS_MAX_DENTRIES \<and>
         (vfs_dentries s)[li := dentry_zero] ! li = dentry_zero \<and>
         d_name ((vfs_dentries s)[li := dentry_zero] ! li) = None"
proof -
  have li: "li < VFS_MAX_DENTRIES"
    using scan_index_bound[OF assms(2)] by simp
  have "vfs_dentry_get parent name s =
          Inr (None, s\<lparr>vfs_dentries := (vfs_dentries s)[li := dentry_zero],
                        vfs_errno := Some E_NOMEM, alloc_ok := rest\<rparr>)"
    using assms(2,3) by (simp add: vfs_dentry_get_def vfs_dentry_reset_def kalloc_def set_errno_def)
  moreover have "(vfs_dentries s)[li := dentry_zero] ! li = dentry_zero"
    using li assms(1) by simp
  moreover have "d_name dentry_zero = None" by (simp add: dentry_zero_def)
  ultimately show ?thesis using li by simp
qed

text \<open>At the full table the victim is the occupied slot 99, holding \<open>d\<close>.\<close>

theorem dentry_get_nomem_not_rolled_back_witness:
  "length (vfs_dentries (s_full [False])) = VFS_MAX_DENTRIES \<and>
   dentry_scan (vfs_dentries (s_full [False])) (Some 0) ''x'' 0 None = NotFound (Some (99, 1)) \<and>
   alloc_ok (s_full [False]) = False # [] \<and>
   d_name (vfs_dentries (s_full [False]) ! 99) = Some ''d'' \<and>
   vfs_dentry_get (Some 0) ''x'' (s_full [False]) =
     Inr (None, (s_full [False])\<lparr>vfs_dentries := (vfs_dentries (s_full [False]))[99 := dentry_zero],
                   vfs_errno := Some E_NOMEM, alloc_ok := []\<rparr>) \<and>
   d_name ((vfs_dentries (s_full [False]))[99 := dentry_zero] ! 99) = None"
proof -
  have len: "length (vfs_dentries (s_full [False])) = VFS_MAX_DENTRIES"
    by (simp add: s_full_def full_table_def)
  have scan: "dentry_scan (vfs_dentries (s_full [False])) (Some 0) ''x'' 0 None = NotFound (Some (99, 1))"
    by (simp add: s_full_def scan_full_table)
  have alloc: "alloc_ok (s_full [False]) = False # []"
    by (simp add: s_full_def vfs_init_def)
  have occ: "d_name (vfs_dentries (s_full [False]) ! 99) = Some ''d''"
    by (simp add: s_full_def full_table_last)
  show ?thesis
    using len scan alloc occ dentry_get_nomem_not_rolled_back[OF len scan alloc] by blast
qed

text \<open>
  C10. Whenever \<open>vfs_dentry_get\<close> returns a null pointer, for a table full of mount
  points (\<open>E_LIMIT\<close>) or for lack of memory (\<open>E_NOMEM\<close>), \<open>vfs_lookup_in_dentry\<close>
  returns a null pointer in the state the dentry cache left, with errno overwritten by
  \<open>E_LIMIT\<close>.
\<close>

theorem lookup_in_dentry_reports_limit:
  assumes "vfs_dentry_get dir name s = Inr (None, s1)"
  shows "vfs_lookup_in_dentry dir name s = Inr (None, s1\<lparr>vfs_errno := Some E_LIMIT\<rparr>)"
  using assms by (simp add: vfs_lookup_in_dentry_def set_errno_def)

text \<open>At the full table with no memory left the dentry cache sets \<open>E_NOMEM\<close> and the
  lookup reports \<open>E_LIMIT\<close>.\<close>

theorem lookup_in_dentry_reports_limit_witness:
  "vfs_dentry_get (Some 0) ''x'' (s_full [False]) =
     Inr (None, (s_full [])\<lparr>vfs_dentries := full_table[99 := dentry_zero], vfs_errno := Some E_NOMEM\<rparr>) \<and>
   vfs_lookup_in_dentry (Some 0) ''x'' (s_full [False]) =
     Inr (None, (s_full [])\<lparr>vfs_dentries := full_table[99 := dentry_zero], vfs_errno := Some E_LIMIT\<rparr>)"
  using dentry_get_full_nomem lookup_in_dentry_reports_limit[OF dentry_get_full_nomem] by simp

subsection \<open>Path resolution\<close>

lemma vfs_lookup_null: "vfs_lookup path tmp s = Inr (r, s') \<Longrightarrow> r = None"
  by (auto simp: vfs_lookup_def split: prod.splits option.splits sum.splits)

text \<open>
  C1 (does not hold of the code). Whenever \<open>tmp_path\<close> is allocated and the walk over
  the components succeeds, ending at the dentry \<open>obj\<close> (the root dentry itself for a
  path without components), \<open>vfs_lookup\<close> returns a null pointer: the statement after
  the loop is \<open>return NULL\<close>. The claim has it return \<open>obj\<close>.
\<close>

theorem vfs_lookup_returns_null:
  assumes "kalloc s = (Some tmp_path, s1)"
    and "lookup_walk (strtok_all tmp CHR ''/'') (vfs_root_dentry s1) s1 = Inr (Some obj, s2)"
  shows "vfs_lookup path tmp s = Inr (None, s2)"
  using assms by (simp add: vfs_lookup_def)

text \<open>With \<open>/\<close> mounted and \<open>/mnt\<close> in the cache the walk over \<open>/mnt\<close> ends at
  slot 98, and the lookup returns a null pointer.\<close>

theorem vfs_lookup_returns_null_witness:
  "kalloc s_mnt = (Some 5, s_mnt\<lparr>heap_next := 6\<rparr>) \<and>
   lookup_walk (strtok_all ''/mnt'' CHR ''/'') (vfs_root_dentry (s_mnt\<lparr>heap_next := 6\<rparr>))
     (s_mnt\<lparr>heap_next := 6\<rparr>) = Inr (Some 98, s_mnt_hit) \<and>
   vfs_lookup ''/mnt'' ''/mnt'' s_mnt = Inr (None, s_mnt_hit)"
proof -
  have k: "kalloc s_mnt = (Some 5, s_mnt\<lparr>heap_next := 6\<rparr>)"
    by (simp add: kalloc_def s_mnt_def s_root_def)
  have w: "lookup_walk (strtok_all ''/mnt'' CHR ''/'') (vfs_root_dentry (s_mnt\<lparr>heap_next := 6\<rparr>))
     (s_mnt\<lparr>heap_next := 6\<rparr>) = Inr (Some 98, s_mnt_hit)"
    using walk_mnt by (simp add: strtok_mnt s_mnt_def s_root_def)
  show ?thesis
    using k w vfs_lookup_returns_null[OF k w] by simp
qed

subsection \<open>Mount\<close>

lemma vfs_sb_alloc_sbs:
  "vfs_sb_alloc devid s = (Some a, s') \<Longrightarrow> vfs_sbs s' = vfs_sbs s @ [(a, sb_default devid (heap_junk s))]"
  by (auto simp: vfs_sb_alloc_def kalloc_def list_add_ok_def split: list.splits if_splits bool.splits)

text \<open>
  C3 (does not hold of the code). After a successful \<open>vfs_mount\<close> the new superblock,
  the last of the registry, has its device id and its filesystem type, but its
  mount-point back-reference \<open>sb_mnt\<close> is null: \<open>vfs_mount\<close> links the dentry to the
  superblock and never the superblock to the dentry, nor does it touch the flag. The
  claim has the back-reference set.
\<close>

theorem mount_leaves_sb_mnt_null:
  assumes "vfs_mount devid path fs_type tmp s = Inr (0, s')"
  shows "vfs_sbs s' \<noteq> [] \<and> sb_devid (snd (last (vfs_sbs s'))) = devid \<and>
         sb_fs_type (snd (last (vfs_sbs s'))) \<noteq> None \<and>
         sb_mnt (snd (last (vfs_sbs s'))) = None"
  using assms
  by (auto simp: vfs_mount_def Let_def vfs_mount_link_def dentry_update_def sb_update_def
        log_call_def sb_filled_def sb_default_def
      dest!: vfs_sb_alloc_sbs
      split: sum.splits prod.splits option.splits if_splits)

text \<open>The first mount of the example: it succeeds, the probe has marked the superblock
  mounted, and \<open>sb_mnt\<close> is null.\<close>

theorem mount_leaves_sb_mnt_null_witness:
  "vfs_mount 1 ''/'' ''rootfs'' ''/'' s_boot = Inr (0, s_root) \<and>
   vfs_sbs s_root \<noteq> [] \<and> sb_devid (snd (last (vfs_sbs s_root))) = 1 \<and>
   sb_fs_type (snd (last (vfs_sbs s_root))) \<noteq> None \<and>
   sb_flags (snd (last (vfs_sbs s_root))) = VFS_SB_F_MOUNTED \<and>
   sb_mnt (snd (last (vfs_sbs s_root))) = None"
  using mount_boot[of "''/''"] mount_leaves_sb_mnt_null[OF mount_boot[of "''/''"]]
  by (simp add: s_root_def)

text \<open>
  C8 (does not hold of the code). When the probe of the filesystem type fails,
  \<open>vfs_mount\<close> hands the superblock it has just allocated, at a fresh address, to
  \<open>vfs_sb_dealloc\<close>. The link to the filesystem type is only written after a
  successful probe, so \<open>vfs_sb_dealloc\<close> reads the release callback through a null
  \<open>sb_fs_type\<close>: the call faults. The claim has it fail with \<open>E_INVFS\<close>.
\<close>

theorem mount_probe_failure_faults:
  assumes "vfs_mount_point path tmp s = Inr (Some d, s1)"
    and "vfs_fs_type_lookup fs_type s1 = Some (fta, ft)"
    and "vfs_sb_lookup devid s1 = None"
    and "vfs_sb_alloc devid s1 = (Some sb, s2)"
    and "sb \<notin> fst ` set (vfs_sbs s1)"
    and "ft_get_sb ft = Some probe"
    and "probe devid = None"
  shows "vfs_mount devid path fs_type tmp s = Inl NullDeref"
proof -
  have sbs: "vfs_sbs s2 = vfs_sbs s1 @ [(sb, sb_default devid (heap_junk s1))]"
    using vfs_sb_alloc_sbs[OF assms(4)] .
  have "map_of (vfs_sbs s1) sb = None"
    using assms(5) by (simp add: map_of_eq_None_iff)
  then have "map_of (vfs_sbs (log_call (Ev_get_sb sb) s2)) sb = Some (sb_default devid (heap_junk s1))"
    using sbs by (simp add: log_call_def map_add_def)
  then have "vfs_sb_dealloc sb (log_call (Ev_get_sb sb) s2) = Inl NullDeref"
    by (simp add: vfs_sb_dealloc_def sb_default_def)
  then show ?thesis
    using assms by (simp add: vfs_mount_def)
qed

text \<open>The mount of \<open>badfs\<close> on \<open>/\<close> as the first mount.\<close>

theorem mount_probe_failure_faults_witness:
  "vfs_mount_point ''/'' ''/'' s_boot =
     Inr (Some 99, s_boot\<lparr>heap_next := 2,
                     vfs_dentries := boot_table[99 := root_dentry\<lparr>d_mnt_sb := None\<rparr>]\<rparr>) \<and>
   vfs_mount 1 ''/'' ''badfs'' ''/'' s_boot = Inl NullDeref"
proof -
  let ?s1 = "s_boot\<lparr>heap_next := 2,
                vfs_dentries := boot_table[99 := root_dentry\<lparr>d_mnt_sb := None\<rparr>]\<rparr>"
  let ?ft = "\<lparr>ft_name = ''badfs'', ft_get_sb = Some (\<lambda>dev. None), ft_kill_sb = Some (\<lambda>dev. True)\<rparr>"
  have root: "vfs_root_dentry s_boot = None" by (simp add: s_boot_def)
  have mp: "vfs_mount_point ''/'' ''/'' s_boot = Inr (Some 99, ?s1)"
    using root by (simp add: vfs_mount_point_def get_boot)
  have ft: "vfs_fs_type_lookup ''badfs'' ?s1 = Some (11, ?ft)"
    by (simp add: vfs_fs_type_lookup_def s_boot_def demo_fs_types_def)
  have sbl: "vfs_sb_lookup 1 ?s1 = None"
    by (simp add: vfs_sb_lookup_def s_boot_def)
  have al: "vfs_sb_alloc 1 ?s1 =
      (Some 2, ?s1\<lparr>heap_next := 3, vfs_sbs := [(2, sb_default 1 None)]\<rparr>)"
    by (simp add: vfs_sb_alloc_def kalloc_def list_add_ok_def s_boot_def)
  have fresh: "2 \<notin> fst ` set (vfs_sbs ?s1)" by (simp add: s_boot_def)
  have probe: "ft_get_sb ?ft = Some (\<lambda>dev. None)" by simp
  have "vfs_mount 1 ''/'' ''badfs'' ''/'' s_boot = Inl NullDeref"
    by (rule mount_probe_failure_faults[OF mp ft sbl al fresh probe]) simp
  with mp show ?thesis by simp
qed

subsection \<open>Unmount\<close>

lemma mount_new_sb:
  assumes "vfs_mount devid path fs_type tmp s = Inr (0, s')"
  shows "vfs_sbs s' \<noteq> [] \<and> sb_devid (snd (last (vfs_sbs s'))) = devid \<and>
         sb_mnt (snd (last (vfs_sbs s'))) = None"
  using assms
  by (auto simp: vfs_mount_def Let_def vfs_mount_link_def dentry_update_def sb_update_def
        log_call_def sb_filled_def sb_default_def
      dest!: vfs_sb_alloc_sbs
      split: sum.splits prod.splits option.splits if_splits)

lemma mount_only_root:
  assumes "vfs_mount devid path fs_type tmp s = Inr (0, s')"
  shows "vfs_root_dentry s = None \<and> path = ''/''"
proof -
  from assms obtain d s1 where "vfs_mount_point path tmp s = Inr (Some d, s1)"
    by (auto simp: vfs_mount_def split: sum.splits prod.splits option.splits)
  then show ?thesis
    by (auto simp: vfs_mount_point_def vfs_lookup_def
          split: option.splits if_splits sum.splits prod.splits)
qed

lemma s_root_no_nested: "\<not> sb_has_nested_mount 2 s_root"
proof -
  have "j < 100 \<Longrightarrow> d_sb ((boot_table[99 := root_dentry]) ! j) \<noteq> Some 2" for j
    by (cases "j = 99") (simp_all add: nth_list_update)
  then show ?thesis
    by (auto simp: sb_has_nested_mount_def s_root_def VFS_MAX_DENTRIES_def)
qed

lemma s_mnt_no_nested: "\<not> sb_has_nested_mount 2 s_mnt"
proof -
  have "sb_has_nested_mount 2 s_mnt = sb_has_nested_mount 2 (s_linked True)"
    by (simp add: sb_has_nested_mount_def s_linked_def)
  then show ?thesis using s_linked_no_nested[of True] by simp
qed

text \<open>
  C4 (does not hold of the code). \<open>vfs_sb_unmount\<close> finds the mount point through
  \<open>sb_mnt\<close>, which \<open>vfs_mount\<close> never sets. Take the superblock a successful mount has
  registered, in the state the mount leaves or in a later one with the same registry,
  flagged mounted by its backend, with no live vnode and no nested mount point belonging
  to it and with an unmount callback that succeeds: the unmount passes both checks,
  calls the backend and then writes through the null \<open>sb_mnt\<close>. The claim has it
  succeed. Since \<open>vfs_lookup\<close> never returns a dentry, a mount that succeeds is a mount
  on \<open>/\<close> while no root is mounted.
\<close>

theorem unmount_after_mount_faults:
  assumes "vfs_mount devid path fs_type tmp s = Inr (0, s1)"
    and "vfs_sbs s2 = vfs_sbs s1"
    and "distinct (map fst (vfs_sbs s2))"
    and "last (vfs_sbs s2) = (sb, sbr)"
    and "sb_flags sbr = VFS_SB_F_MOUNTED"
    and "\<not> sb_has_live_vnode sb s2"
    and "\<not> sb_has_nested_mount sb s2"
    and "unmount (sb_ops sbr) = Some unmnt"
    and "unmnt (sb_devid sbr)"
  shows "vfs_root_dentry s = None \<and> path = ''/'' \<and>
         map_of (vfs_sbs s2) sb = Some sbr \<and> sb_devid sbr = devid \<and> sb_mnt sbr = None \<and>
         vfs_sb_unmount sb s2 = Inl NullDeref"
proof -
  have new: "vfs_sbs s2 \<noteq> []" "sb_devid sbr = devid" "sb_mnt sbr = None"
    using mount_new_sb[OF assms(1)] assms(2,4) by simp_all
  then have "(sb, sbr) \<in> set (vfs_sbs s2)"
    using assms(4) last_in_set[of "vfs_sbs s2"] by simp
  then have reg: "map_of (vfs_sbs s2) sb = Some sbr"
    using assms(3) by simp
  have "vfs_sb_unmount sb s2 = Inl NullDeref"
    using reg new(3) assms(5,8,9) unmount_sb_not_live[OF assms(6)] assms(7)
    by (simp add: vfs_sb_unmount_def vfs_dentry_unmount_sb_def unmount_check_nested)
  then show ?thesis
    using mount_only_root[OF assms(1)] reg new by simp
qed

text \<open>The first mount of the example and the unmount of its superblock, at once and
  after \<open>/mnt\<close> has been looked up.\<close>

theorem unmount_after_mount_faults_witness:
  "vfs_mount 1 ''/'' ''rootfs'' ''/'' s_boot = Inr (0, s_root) \<and>
   distinct (map fst (vfs_sbs s_root)) \<and>
   last (vfs_sbs s_root) = (2, root_sb) \<and>
   sb_flags root_sb = VFS_SB_F_MOUNTED \<and>
   vfs_vnodes s_root = [] \<and>
   \<not> sb_has_live_vnode 2 s_root \<and>
   \<not> sb_has_nested_mount 2 s_root \<and>
   unmount (sb_ops root_sb) = Some (\<lambda>dev. True) \<and>
   sb_mnt root_sb = None \<and>
   vfs_sb_unmount 2 s_root = Inl NullDeref \<and>
   vfs_lookup_in_dentry (Some 99) ''mnt'' s_root = Inr (Some 98, s_mnt) \<and>
   vfs_sbs s_mnt = vfs_sbs s_root \<and>
   \<not> sb_has_live_vnode 2 s_mnt \<and>
   \<not> sb_has_nested_mount 2 s_mnt \<and>
   vfs_sb_unmount 2 s_mnt = Inl NullDeref"
proof -
  have m: "vfs_mount 1 ''/'' ''rootfs'' ''/'' s_boot = Inr (0, s_root)"
    by (rule mount_boot)
  have d: "distinct (map fst (vfs_sbs s_root))" and l: "last (vfs_sbs s_root) = (2, root_sb)"
    and v: "vfs_vnodes s_root = []"
    by (simp_all add: s_root_def)
  have same: "vfs_sbs s_mnt = vfs_sbs s_root" by (simp add: s_mnt_def)
  have d': "distinct (map fst (vfs_sbs s_mnt))" and l': "last (vfs_sbs s_mnt) = (2, root_sb)"
    using d l by (simp_all add: same)
  have f: "sb_flags root_sb = VFS_SB_F_MOUNTED" by simp
  have live: "\<not> sb_has_live_vnode 2 s_root" "\<not> sb_has_live_vnode 2 s_mnt"
    by (simp_all add: sb_has_live_vnode_def s_root_def s_mnt_def)
  have cb: "unmount (sb_ops root_sb) = Some (\<lambda>dev. True)"
    by (simp add: demo_sb_ops_def)
  have a: "sb_mnt root_sb = None \<and> vfs_sb_unmount 2 s_root = Inl NullDeref"
    using unmount_after_mount_faults[OF m refl d l f live(1) s_root_no_nested cb] by simp
  have b: "vfs_sb_unmount 2 s_mnt = Inl NullDeref"
    using unmount_after_mount_faults[OF m same d' l' f live(2) s_mnt_no_nested cb] by simp
  show ?thesis
    using m d l f v live s_root_no_nested s_mnt_no_nested cb a b same lookup_root_mnt by blast
qed

text \<open>
  C5, as stated, fails: the dentries of the superblock are reset before the unmount
  callback is called. With a callback that fails, the dentry of \<open>/mnt\<close> in slot 98 is
  gone when \<open>vfs_sb_unmount\<close> returns \<open>E_IO\<close>.
\<close>

theorem unmount_backend_failure_counterexample:
  "vfs_dentries (s_linked False) ! 98 = mnt_dentry \<and>
   d_sb mnt_dentry = Some 2 \<and>
   vfs_sb_unmount 2 (s_linked False) =
     Inr (- 1, (s_linked False)\<lparr>vfs_dentries := boot_table[99 := root_dentry],
                  backend_calls := backend_calls (s_linked False) @ [Ev_unmount 2],
                  vfs_errno := Some E_IO\<rparr>) \<and>
   (boot_table[99 := root_dentry]) ! 98 = dentry_zero"
proof -
  have "vfs_sb_unmount 2 (s_linked False) =
     Inr (- 1, (s_linked False)\<lparr>vfs_dentries := boot_table[99 := root_dentry],
                  backend_calls := backend_calls (s_linked False) @ [Ev_unmount 2],
                  vfs_errno := Some E_IO\<rparr>)"
    using unmount_sb_not_live[OF s_linked_no_vnode[of False]] s_linked_check[of False]
      s_linked_reset[of False]
    by (simp add: vfs_sb_unmount_def vfs_dentry_unmount_sb_def
          demo_sb_ops_def set_errno_def log_call_def)
  then show ?thesis by simp
qed

text \<open>
  C5, amended. When no live vnode and no nested mount point belongs to the mounted
  superblock and its unmount callback fails, \<open>vfs_sb_unmount\<close> returns -1 with \<open>E_IO\<close>
  and leaves the registry as it was (the superblock still mounted, its links intact),
  so that the unmount can be tried again; but every dentry owned by the superblock has
  already been reset, and only the other slots are as before.
\<close>

theorem unmount_backend_failure:
  assumes "map_of (vfs_sbs s) sb = Some sbr"
    and "sb_flags sbr = VFS_SB_F_MOUNTED"
    and "length (vfs_dentries s) = VFS_MAX_DENTRIES"
    and "\<not> sb_has_live_vnode sb s"
    and "\<not> sb_has_nested_mount sb s"
    and "unmount (sb_ops sbr) = Some unmnt"
    and "\<not> unmnt (sb_devid sbr)"
  shows "vfs_sb_unmount sb s =
           Inr (- 1, s\<lparr>vfs_dentries := dentry_unmount_reset (vfs_dentries s) sb 0,
                        backend_calls := backend_calls s @ [Ev_unmount sb],
                        vfs_errno := Some E_IO\<rparr>) \<and>
         (\<forall>j<VFS_MAX_DENTRIES.
            dentry_unmount_reset (vfs_dentries s) sb 0 ! j =
              (if dentry_owned sb (vfs_dentries s ! j) then dentry_zero else vfs_dentries s ! j))"
proof -
  have "vfs_sb_unmount sb s =
           Inr (- 1, s\<lparr>vfs_dentries := dentry_unmount_reset (vfs_dentries s) sb 0,
                        backend_calls := backend_calls s @ [Ev_unmount sb],
                        vfs_errno := Some E_IO\<rparr>)"
    using assms(1,2,6,7) unmount_sb_not_live[OF assms(4)] assms(5)
    by (simp add: vfs_sb_unmount_def vfs_dentry_unmount_sb_def unmount_check_nested
          set_errno_def log_call_def)
  then show ?thesis
    using unmount_reset_owned[OF assms(3)] by simp
qed

text \<open>The theorem at the example with the failing callback.\<close>

theorem unmount_backend_failure_witness:
  "map_of (vfs_sbs (s_linked False)) 2 =
      Some (root_sb\<lparr>sb_ops := demo_sb_ops True True False, sb_mnt := Some 99\<rparr>) \<and>
   length (vfs_dentries (s_linked False)) = VFS_MAX_DENTRIES \<and>
   \<not> sb_has_live_vnode 2 (s_linked False) \<and> \<not> sb_has_nested_mount 2 (s_linked False) \<and>
   vfs_sb_unmount 2 (s_linked False) =
     Inr (- 1, (s_linked False)\<lparr>vfs_dentries := dentry_unmount_reset (vfs_dentries (s_linked False)) 2 0,
                  backend_calls := backend_calls (s_linked False) @ [Ev_unmount 2],
                  vfs_errno := Some E_IO\<rparr>) \<and>
   dentry_unmount_reset (vfs_dentries (s_linked False)) 2 0 ! 98 = dentry_zero \<and>
   dentry_unmount_reset (vfs_dentries (s_linked False)) 2 0 ! 99 = root_dentry"
proof -
  let ?sbr = "root_sb\<lparr>sb_ops := demo_sb_ops True True False, sb_mnt := Some 99\<rparr>"
  have reg: "map_of (vfs_sbs (s_linked False)) 2 = Some ?sbr" by simp
  have fl: "sb_flags ?sbr = VFS_SB_F_MOUNTED" by simp
  have len: "length (vfs_dentries (s_linked False)) = VFS_MAX_DENTRIES"
    by (simp add: VFS_MAX_DENTRIES_def)
  have cb: "unmount (sb_ops ?sbr) = Some (\<lambda>dev. False)" by (simp add: demo_sb_ops_def)
  have own: "dentry_owned 2 (vfs_dentries (s_linked False) ! 98)"
    "\<not> dentry_owned 2 (vfs_dentries (s_linked False) ! 99)"
    by (simp_all add: dentry_owned_def)
  have "(98::nat) < VFS_MAX_DENTRIES" "(99::nat) < VFS_MAX_DENTRIES"
    by (simp_all add: VFS_MAX_DENTRIES_def)
  then show ?thesis
    using reg len s_linked_no_vnode[of False] s_linked_no_nested[of False] own
      unmount_backend_failure[OF reg fl len s_linked_no_vnode[of False] s_linked_no_nested[of False] cb]
    by simp
qed

subsection \<open>Reference counts\<close>




subsection \<open>Failed mounts\<close>

lemma sb_update_fresh:
  "a \<notin> fst ` set xs \<Longrightarrow> map (\<lambda>(a', sb). if a' = a then (a', f sb) else (a', sb)) xs = xs"
  by (induction xs) auto

lemma fs_type_lookup_map_of:
  assumes "vfs_fs_type_lookup name s = Some (fta, ft)" and "distinct (map fst (vfs_fs_types s))"
  shows "map_of (vfs_fs_types s) fta = Some ft"
proof -
  have "(fta, ft) \<in> set (vfs_fs_types s)"
    using assms(1) by (auto simp: vfs_fs_type_lookup_def dest!: list_find_Some)
  then show ?thesis using assms(2) by simp
qed

text \<open>
  C2 (does not hold of the code). When the mount callback of the new superblock fails,
  \<open>vfs_mount\<close> calls the release callback of the filesystem type and then
  \<open>vfs_sb_dealloc\<close>, which calls it a second time and gives up when it fails.
  \<open>vfs_mount\<close> does not look at what \<open>vfs_sb_dealloc\<close> returns: it resets the dentry
  and returns -1 with \<open>E_IO\<close>, and the superblock it allocated is still in the
  registry. The claim has the registry as it was before the call.
\<close>

theorem mount_io_failure_leaks_sb:
  assumes "vfs_mount_point path tmp s = Inr (Some d, s1)"
    and "vfs_fs_type_lookup fs_type s1 = Some (fta, ft)"
    and "distinct (map fst (vfs_fs_types s1))"
    and "vfs_sb_lookup devid s1 = None"
    and "vfs_sb_alloc devid s1 = (Some sb, s2)"
    and "sb \<notin> fst ` set (vfs_sbs s1)"
    and "ft_get_sb ft = Some probe"
    and "probe devid = Some fill"
    and "mount (sf_ops fill) = Some mnt"
    and "\<not> mnt devid"
    and "ft_kill_sb ft = Some kill"
    and "\<not> kill devid"
  shows "vfs_mount devid path fs_type tmp s =
           Inr (- 1,
             s2\<lparr>vfs_sbs := vfs_sbs s @
                    [(sb, (sb_filled fill (sb_default devid (heap_junk s1)))\<lparr>sb_fs_type := Some fta\<rparr>)],
                vfs_dentries := (vfs_dentries s2)[d := dentry_zero],
                backend_calls := backend_calls s2 @
                    [Ev_get_sb sb, Ev_mount sb, Ev_kill_sb sb, Ev_kill_sb sb],
                vfs_errno := Some E_IO\<rparr>)"
proof -
  let ?new = "(sb_filled fill (sb_default devid (heap_junk s1)))\<lparr>sb_fs_type := Some fta\<rparr>"
  let ?s3 = "sb_update sb (\<lambda>x. (sb_filled fill x)\<lparr>sb_fs_type := Some fta\<rparr>)
               (log_call (Ev_get_sb sb) s2)"
  let ?s4 = "log_call (Ev_kill_sb sb) (log_call (Ev_mount sb) ?s3)"
  have same: "vfs_sbs s1 = vfs_sbs s"
    using mount_point_regs[OF assms(1)] by (simp add: regs_def)
  have sbs2: "vfs_sbs s2 = vfs_sbs s1 @ [(sb, sb_default devid (heap_junk s1))]"
    using vfs_sb_alloc_sbs[OF assms(5)] .
  have fts2: "vfs_fs_types s2 = vfs_fs_types s1"
    using assms(5)
    by (auto simp: vfs_sb_alloc_def kalloc_def list_add_ok_def
          split: list.splits if_splits bool.splits)
  have none: "map_of (vfs_sbs s1) sb = None"
    using assms(6) by (simp add: map_of_eq_None_iff)
  have sbs4: "vfs_sbs ?s4 = vfs_sbs s1 @ [(sb, ?new)]"
    using sbs2 sb_update_fresh[OF assms(6)] by (simp add: log_call_def sb_update_def)
  have reg: "map_of (vfs_sbs ?s4) sb = Some ?new"
    using none by (simp add: sbs4 map_add_def)
  have ft: "map_of (vfs_fs_types ?s4) fta = Some ft"
    using fs_type_lookup_map_of[OF assms(2,3)] fts2 by (simp add: log_call_def sb_update_def)
  have dev: "sb_devid ?new = devid" "sb_fs_type ?new = Some fta"
    by (simp_all add: sb_filled_def sb_default_def)
  have dealloc: "vfs_sb_dealloc sb ?s4 = Inr (- 1, set_errno E_IO (log_call (Ev_kill_sb sb) ?s4))"
    using reg ft dev assms(11,12) by (simp add: vfs_sb_dealloc_def Let_def)
  have run: "vfs_mount devid path fs_type tmp s =
      Inr (- 1, set_errno E_IO (vfs_dentry_reset d (set_errno E_IO (log_call (Ev_kill_sb sb) ?s4))))"
    using assms dealloc by (simp add: vfs_mount_def Let_def)
  have "set_errno E_IO (vfs_dentry_reset d (set_errno E_IO (log_call (Ev_kill_sb sb) ?s4))) =
        s2\<lparr>vfs_sbs := vfs_sbs s @ [(sb, ?new)],
           vfs_dentries := (vfs_dentries s2)[d := dentry_zero],
           backend_calls := backend_calls s2 @
               [Ev_get_sb sb, Ev_mount sb, Ev_kill_sb sb, Ev_kill_sb sb],
           vfs_errno := Some E_IO\<rparr>"
    using sbs4 same
    by (simp add: set_errno_def vfs_dentry_reset_def log_call_def sb_update_def)
  with run show ?thesis by simp
qed

text \<open>The mount of \<open>iofs\<close> on \<open>/\<close> as the first mount: the registry was empty and now
  holds the superblock of device 1.\<close>

theorem mount_io_failure_leaks_sb_witness:
  "vfs_sbs s_boot = [] \<and>
   vfs_mount 1 ''/'' ''iofs'' ''/'' s_boot = Inr (- 1, s_leak) \<and>
   vfs_errno s_leak = Some E_IO \<and>
   vfs_sbs s_leak = [(2, io_sb)] \<and>
   vfs_dentries s_leak = vfs_dentries s_boot \<and>
   backend_calls s_leak = [Ev_get_sb 2, Ev_mount 2, Ev_kill_sb 2, Ev_kill_sb 2]"
proof -
  let ?s1 = "s_boot\<lparr>heap_next := 2,
                vfs_dentries := boot_table[99 := root_dentry\<lparr>d_mnt_sb := None\<rparr>]\<rparr>"
  let ?s2 = "?s1\<lparr>heap_next := 3, vfs_sbs := [(2, sb_default 1 None)]\<rparr>"
  let ?ft = "\<lparr>ft_name = ''iofs'', ft_get_sb = Some (\<lambda>dev. Some (demo_fill False)),
              ft_kill_sb = Some (\<lambda>dev. False)\<rparr>"
  have root: "vfs_root_dentry s_boot = None" by (simp add: s_boot_def)
  have mp: "vfs_mount_point ''/'' ''/'' s_boot = Inr (Some 99, ?s1)"
    using root by (simp add: vfs_mount_point_def get_boot)
  have ft: "vfs_fs_type_lookup ''iofs'' ?s1 = Some (12, ?ft)"
    by (simp add: vfs_fs_type_lookup_def s_boot_def demo_fs_types_def)
  have dist: "distinct (map fst (vfs_fs_types ?s1))"
    by (simp add: s_boot_def demo_fs_types_def)
  have sbl: "vfs_sb_lookup 1 ?s1 = None"
    by (simp add: vfs_sb_lookup_def s_boot_def)
  have al: "vfs_sb_alloc 1 ?s1 = (Some 2, ?s2)"
    by (simp add: vfs_sb_alloc_def kalloc_def list_add_ok_def s_boot_def)
  have fresh: "2 \<notin> fst ` set (vfs_sbs ?s1)" by (simp add: s_boot_def)
  have probe: "ft_get_sb ?ft = Some (\<lambda>dev. Some (demo_fill False))" by simp
  have fill: "(\<lambda>dev. Some (demo_fill False)) (1::nat) = Some (demo_fill False)" by simp
  have mnt: "mount (sf_ops (demo_fill False)) = Some (\<lambda>dev. False)"
    by (simp add: demo_fill_def demo_sb_ops_def)
  have kill: "ft_kill_sb ?ft = Some (\<lambda>dev. False)" by simp
  have "vfs_mount 1 ''/'' ''iofs'' ''/'' s_boot =
           Inr (- 1,
             ?s2\<lparr>vfs_sbs := vfs_sbs s_boot @
                    [(2, (sb_filled (demo_fill False) (sb_default 1 (heap_junk ?s1)))\<lparr>sb_fs_type := Some 12\<rparr>)],
                vfs_dentries := (vfs_dentries ?s2)[99 := dentry_zero],
                backend_calls := backend_calls ?s2 @
                    [Ev_get_sb 2, Ev_mount 2, Ev_kill_sb 2, Ev_kill_sb 2],
                vfs_errno := Some E_IO\<rparr>)"
    by (rule mount_io_failure_leaks_sb[OF mp ft dist sbl al fresh probe fill mnt _ kill]) simp_all
  then have run: "vfs_mount 1 ''/'' ''iofs'' ''/'' s_boot = Inr (- 1, s_leak)"
    by (simp add: s_leak_def io_sb_def s_boot_def)
  show ?thesis
    using run by (simp add: s_leak_def s_boot_def)
qed

end
